theory Spec2Isabelle
  imports Main "HOL-Library.Word"
begin

unbundle bit_operations_syntax

section \<open>The DTLS record layer of \<^verbatim>\<open>ssl/record/methods/dtls_meth.c\<close>\<close>

text \<open>
  A shallow embedding of the DTLS record method: the saturating subtraction of
  sequence numbers, the replay window, the epoch router, record processing, the read
  loop, teardown, and the legacy write-pending helper.

  Conventions. C integers used as truth values (\<^verbatim>\<open>in_init\<close>, \<^verbatim>\<open>use_etm\<close>,
  \<^verbatim>\<open>is_first_record\<close>, \<^verbatim>\<open>is_next_epoch\<close>) are \<open>bool\<close>; a pointer that is only
  tested against \<^verbatim>\<open>NULL\<close> is an \<open>option\<close> or a \<open>bool\<close>; \<^verbatim>\<open>uint64_t\<close> is \<open>64 word\<close>,
  \<^verbatim>\<open>unsigned long\<close> is \<open>64 word\<close> (LP64), \<^verbatim>\<open>uint16_t\<close> and \<^verbatim>\<open>unsigned short\<close> are
  \<open>16 word\<close>, \<^verbatim>\<open>int\<close> values that stay small are \<open>int\<close>, and \<^verbatim>\<open>size_t\<close> lengths are
  \<open>nat\<close>, with the wrap-around of a subtraction written out where the code does not
  guard it. A pointer into a byte buffer is the list of bytes found from that address on.
\<close>

subsection \<open>Sequence numbers\<close>

type_synonym byte = "8 word"

text \<open>\<^verbatim>\<open>unsigned char[SEQ_NUM_SIZE]\<close>, with \<^verbatim>\<open>SEQ_NUM_SIZE\<close> = 8.\<close>

datatype seq_num = SeqNum byte byte byte byte byte byte byte byte

definition seq_num_zero :: seq_num where
  "seq_num_zero = SeqNum 0 0 0 0 0 0 0 0"

text \<open>
  Modelled from the spec: the macro \<^verbatim>\<open>n2l8\<close> of \<^verbatim>\<open>ssl_local.h\<close> is not part of the
  sources at hand; the spec (4.1, 4.5) and the comment above \<^verbatim>\<open>satsub64be\<close> fix it as
  the load of a 64-bit value from eight bytes in big-endian order.
\<close>

fun n2l8 :: "seq_num \<Rightarrow> 64 word" where
  "n2l8 (SeqNum c0 c1 c2 c3 c4 c5 c6 c7) =
     push_bit 56 (ucast c0) OR push_bit 48 (ucast c1) OR push_bit 40 (ucast c2)
     OR push_bit 32 (ucast c3) OR push_bit 24 (ucast c4) OR push_bit 16 (ucast c5)
     OR push_bit 8 (ucast c6) OR ucast c7"

text \<open>
  \<^verbatim>\<open>satsub64be\<close>: \<^verbatim>\<open>ret = l1 - l2\<close> is computed on \<^verbatim>\<open>uint64_t\<close> and read as
  \<^verbatim>\<open>int64_t\<close> (\<open>sint\<close>). Every returned value lies in \<open>[-128, 128]\<close>, so the final
  cast \<^verbatim>\<open>(int)ret\<close> loses nothing and the result is an \<open>int\<close>.
\<close>

definition satsub64be :: "seq_num \<Rightarrow> seq_num \<Rightarrow> int" where
  "satsub64be v1 v2 =
     (let l1 = n2l8 v1; l2 = n2l8 v2; ret = l1 - l2 in
      if l1 > l2 \<and> sint ret < 0 then 128
      else if l2 > l1 \<and> sint ret > 0 then - 128
      else if sint ret > 128 then 128
      else if sint ret < - 128 then - 128
      else sint ret)"

text \<open>
  Subtraction on \<^verbatim>\<open>size_t\<close> (64 bits), which wraps around when the result would be
  negative.
\<close>

definition size_t_sub :: "nat \<Rightarrow> nat \<Rightarrow> nat" where
  "size_t_sub a b = (a + 2 ^ 64 - b) mod 2 ^ 64"

text \<open>Conversion of an \<^verbatim>\<open>int\<close> to \<^verbatim>\<open>unsigned int\<close> (32 bits).\<close>

definition to_unsigned :: "int \<Rightarrow> nat" where
  "to_unsigned i = nat (i mod 2 ^ 32)"

subsection \<open>Data model\<close>

record DTLS_BITMAP =
  map_bits :: "64 word"
  max_seq_num :: seq_num

text \<open>\<^verbatim>\<open>sizeof(bitmap->map) * 8\<close>\<close>

definition map_width :: nat where
  "map_width = 64"

record SSL3_BUFFER =
  buf :: "byte list option"
  blen :: nat
  offset :: nat
  left :: nat

definition SSL3_BUFFER_zero :: SSL3_BUFFER where
  "SSL3_BUFFER_zero = \<lparr>buf = None, blen = 0, offset = 0, left = 0\<rparr>"

record SSL3_RECORD =
  rr_type :: int
  rr_epoch :: "64 word"
  rr_length :: nat
  rr_orig_len :: nat
  rr_off :: nat
  rr_data :: "byte list"
  rr_input :: "byte list"
  rr_seq_num :: seq_num

definition SSL3_RECORD_zero :: SSL3_RECORD where
  "SSL3_RECORD_zero = \<lparr>rr_type = 0, rr_epoch = 0, rr_length = 0, rr_orig_len = 0,
     rr_off = 0, rr_data = [], rr_input = [], rr_seq_num = seq_num_zero\<rparr>"

record DTLS_RLAYER_RECORD_DATA =
  rd_packet :: "byte list"
  rd_packet_length :: nat
  rd_rbuf :: SSL3_BUFFER
  rd_rrec :: SSL3_RECORD

text \<open>A \<^verbatim>\<open>pitem\<close>: its 8-byte priority and its data.\<close>

type_synonym pitem = "seq_num \<times> DTLS_RLAYER_RECORD_DATA"

type_synonym pqueue = "pitem list"

record record_pqueue =
  pq_epoch :: "16 word"
  pq_q :: "pqueue option"

datatype alert =
    SSL_AD_NO_ALERT
  | SSL_AD_RECORD_OVERFLOW
  | SSL_AD_INTERNAL_ERROR
  | SSL_AD_DECODE_ERROR
  | SSL_AD_BAD_RECORD_MAC
  | SSL_AD_DECOMPRESSION_FAILURE
  | SSL_AD_OTHER nat

datatype reason =
    SSL_R_ENCRYPTED_LENGTH_TOO_LONG
  | ERR_R_EVP_LIB
  | SSL_R_LENGTH_TOO_SHORT
  | SSL_R_DECRYPTION_FAILED_OR_BAD_RECORD_MAC
  | SSL_R_COMPRESSED_LENGTH_TOO_LONG
  | SSL_R_BAD_DECOMPRESSION
  | SSL_R_DATA_LENGTH_TOO_LONG
  | ERR_R_INTERNAL_ERROR
  | ERR_R_SSL_LIB
  | SSL_R_BAD_WRITE_RETRY
  | SSL_R_BIO_NOT_SET
  | SSL_R_EXCEEDS_MAX_FRAGMENT_SIZE
  | SSL_R_LIBRARY_BUG
  | SSL_R_COMPRESSION_FAILURE
  | REASON_OTHER nat

datatype rstate_t = SSL_ST_READ_HEADER | SSL_ST_READ_BODY

text \<open>
  \<^verbatim>\<open>md_ctx\<close> is \<open>None\<close> for a \<^verbatim>\<open>NULL\<close> context, \<open>Some None\<close> for a context without
  a digest, and \<open>Some (Some n)\<close> for a digest whose \<^verbatim>\<open>EVP_MD_get_size\<close> is \<open>n\<close>.
  The field \<open>ext\<close> stands for the state of the collaborators the layer borrows
  (transport BIOs, cipher and digest contexts); \<open>next_bio\<close> is the log of the
  buffers handed to \<^verbatim>\<open>BIO_write_ex(rl->next, ...)\<close>, oldest first.
\<close>

record 'x OSSL_RECORD_LAYER =
  version :: int
  epoch :: "16 word"
  isdtls :: bool
  is_first_record :: bool
  in_init :: bool
  use_etm :: bool
  md_ctx :: "int option option"
  enc_ctx :: bool
  compctx :: bool
  max_frag_len :: nat
  alert :: alert
  fatal_reason :: "reason option"
  rstate :: rstate_t
  rbuf :: SSL3_BUFFER
  packet :: "byte list"
  packet_length :: nat
  sequence :: seq_num
  rrec :: SSL3_RECORD
  num_recs :: nat
  curr_rec :: nat
  num_released :: nat
  bitmap :: DTLS_BITMAP
  next_bitmap :: DTLS_BITMAP
  unprocessed_rcds :: record_pqueue
  processed_rcds :: record_pqueue
  bio_is_sctp :: bool
  next_bio :: "byte list list"
  ext :: 'x

text \<open>
  Modelled from the spec: \<^verbatim>\<open>RLAYERfatal\<close> (\<^verbatim>\<open>recmethod_local.h\<close>) is not part of the
  sources at hand; by the spec (section 7) it is the single fatal-raise site, which
  records the alert code and the reason code in the layer.
\<close>

definition RLAYERfatal :: "'x OSSL_RECORD_LAYER \<Rightarrow> alert \<Rightarrow> reason \<Rightarrow> 'x OSSL_RECORD_LAYER" where
  "RLAYERfatal rl al r = rl\<lparr>alert := al, fatal_reason := Some r\<rparr>"

text \<open>
  Modelled from the spec: the record types of \<^verbatim>\<open>ssl3.h\<close> and the header length of
  \<^verbatim>\<open>dtls1.h\<close>, with the values of the spec's wire format (section 6).
\<close>

definition SSL3_RT_CHANGE_CIPHER_SPEC :: int where "SSL3_RT_CHANGE_CIPHER_SPEC = 20"
definition SSL3_RT_ALERT :: int where "SSL3_RT_ALERT = 21"
definition SSL3_RT_HANDSHAKE :: int where "SSL3_RT_HANDSHAKE = 22"
definition SSL3_RT_APPLICATION_DATA :: int where "SSL3_RT_APPLICATION_DATA = 23"
definition DTLS1_RT_HEADER_LENGTH :: nat where "DTLS1_RT_HEADER_LENGTH = 13"

subsection \<open>Replay window\<close>

text \<open>
  The two windows of a layer; \<^verbatim>\<open>DTLS_BITMAP *bitmap\<close> points to one of them.
\<close>

datatype bitmap_ptr = CurrentBitmap | NextBitmap

definition get_bm :: "'x OSSL_RECORD_LAYER \<Rightarrow> bitmap_ptr \<Rightarrow> DTLS_BITMAP" where
  "get_bm rl p = (case p of CurrentBitmap \<Rightarrow> bitmap rl | NextBitmap \<Rightarrow> next_bitmap rl)"

definition set_bm :: "'x OSSL_RECORD_LAYER \<Rightarrow> bitmap_ptr \<Rightarrow> DTLS_BITMAP \<Rightarrow> 'x OSSL_RECORD_LAYER" where
  "set_bm rl p b = (case p of CurrentBitmap \<Rightarrow> rl\<lparr>bitmap := b\<rparr> | NextBitmap \<Rightarrow> rl\<lparr>next_bitmap := b\<rparr>)"

text \<open>
  \<^verbatim>\<open>dtls_record_replay_check\<close>: 1 for a record that is new, 0 for one that is stale
  (outside the window) or was received before. On 1 the sequence number is stored in
  \<^verbatim>\<open>rl->rrec[0]\<close>.
\<close>

definition dtls_record_replay_check ::
  "'x OSSL_RECORD_LAYER \<Rightarrow> bitmap_ptr \<Rightarrow> int \<times> 'x OSSL_RECORD_LAYER" where
  "dtls_record_replay_check rl bp =
     (let seq = sequence rl;
          bm = get_bm rl bp;
          cmp = satsub64be seq (max_seq_num bm)
      in if cmp > 0 then (1, rl\<lparr>rrec := (rrec rl)\<lparr>rr_seq_num := seq\<rparr>\<rparr>)
         else let shift = to_unsigned (- cmp) in
           if shift \<ge> map_width then (0, rl)
           else if map_bits bm AND push_bit shift 1 \<noteq> 0 then (0, rl)
           else (1, rl\<lparr>rrec := (rrec rl)\<lparr>rr_seq_num := seq\<rparr>\<rparr>))"

definition dtls_record_bitmap_update ::
  "'x OSSL_RECORD_LAYER \<Rightarrow> bitmap_ptr \<Rightarrow> 'x OSSL_RECORD_LAYER" where
  "dtls_record_bitmap_update rl bp =
     (let seq = sequence rl;
          bm = get_bm rl bp;
          cmp = satsub64be seq (max_seq_num bm)
      in if cmp > 0 then
           (let shift = to_unsigned cmp;
                m = (if shift < map_width then push_bit shift (map_bits bm) OR 1 else 1)
            in set_bm rl bp (bm\<lparr>map_bits := m, max_seq_num := seq\<rparr>))
         else
           (let shift = to_unsigned (- cmp)
            in if shift < map_width
               then set_bm rl bp (bm\<lparr>map_bits := map_bits bm OR push_bit shift 1\<rparr>)
               else rl))"

subsection \<open>Epoch router\<close>

text \<open>
  \<^verbatim>\<open>dtls_get_bitmap\<close>. \<^verbatim>\<open>rr->epoch\<close> is an \<^verbatim>\<open>unsigned long\<close>; \<^verbatim>\<open>rl->epoch\<close> and the
  queue's epoch are 16 bits wide and are promoted to \<^verbatim>\<open>int\<close> before they are compared
  or incremented, so \<^verbatim>\<open>rl->epoch + 1\<close> does not wrap. The result is the window (or
  \<^verbatim>\<open>NULL\<close>) and \<^verbatim>\<open>*is_next_epoch\<close>.
\<close>

definition dtls_get_bitmap ::
  "'x OSSL_RECORD_LAYER \<Rightarrow> SSL3_RECORD \<Rightarrow> bitmap_ptr option \<times> bool" where
  "dtls_get_bitmap rl rr =
     (if uint (rr_epoch rr) = uint (epoch rl) then (Some CurrentBitmap, False)
      else if rr_epoch rr = word_of_int (uint (epoch rl) + 1)
              \<and> uint (pq_epoch (unprocessed_rcds rl)) \<noteq> uint (epoch rl)
              \<and> (rr_type rr = SSL3_RT_HANDSHAKE \<or> rr_type rr = SSL3_RT_ALERT)
           then (Some NextBitmap, True)
      else (None, False))"

definition dtls_set_in_init :: "'x OSSL_RECORD_LAYER \<Rightarrow> bool \<Rightarrow> 'x OSSL_RECORD_LAYER" where
  "dtls_set_in_init rl i = rl\<lparr>in_init := i\<rparr>"

subsection \<open>Collaborators\<close>

text \<open>
  The functions and constants that \<^verbatim>\<open>dtls_meth.c\<close> takes from elsewhere (the method
  table \<^verbatim>\<open>rl->funcs\<close>, \<^verbatim>\<open>tls_common.c\<close>, the BIO and EVP libraries, the allocator,
  the headers) are parameters, collected in one record. Each function receives the
  layer and returns its C result together with the parts of the layer it writes:
  \<^item> \<open>read_n\<close> (called with \<^verbatim>\<open>n\<close>, \<^verbatim>\<open>max\<close>, \<^verbatim>\<open>extend\<close>, \<^verbatim>\<open>clearold\<close>): the return
    code, \<^verbatim>\<open>*readbytes\<close>, and the new packet, packet length, read buffer, alert and
    collaborator state;
  \<^item> \<open>tls_setup_read_buffer\<close>: success, and the new read buffer, alert and reason;
  \<^item> \<open>mac\<close> (with the \<^verbatim>\<open>sending\<close> flag): the return code and the digest written
    to \<^verbatim>\<open>md\<close>;
  \<^item> \<open>cipher\<close> (called for one record, not sending, with the MAC size): the return
    code, the record as the cipher leaves it, the MAC buffer, the alert and reason
    (changed when the cipher called \<^verbatim>\<open>RLAYERfatal\<close>) and the collaborator state;
  \<^item> \<open>tls_do_uncompress\<close>: success, the record and the collaborator state;
  \<^item> \<open>OPENSSL_malloc_ok\<close>, \<open>pitem_new_ok\<close>: whether the allocation succeeds;
  \<^item> \<open>BIO_write_ex_next\<close>: whether a write to \<^verbatim>\<open>rl->next\<close> succeeds, given what the
    sink has received and the bytes to write;
  \<^item> \<open>tls_free\<close>: its return value.
  The replay windows, the epoch and the deferred queues are touched by this file only.
\<close>

record SSL_MAC_BUF =
  mb_mac :: "byte list option"
  mb_alloced :: bool

record 'x read_n_result =
  rn_ret :: int
  rn_readbytes :: nat
  rn_packet :: "byte list"
  rn_packet_length :: nat
  rn_rbuf :: SSL3_BUFFER
  rn_alert :: alert
  rn_reason :: "reason option"
  rn_ext :: 'x

record setup_result =
  sr_ok :: bool
  sr_rbuf :: SSL3_BUFFER
  sr_alert :: alert
  sr_reason :: "reason option"

record 'x cipher_result =
  enc_err :: int
  cr_rrec :: SSL3_RECORD
  cr_macbuf :: SSL_MAC_BUF
  cr_alert :: alert
  cr_reason :: "reason option"
  cr_ext :: 'x

record 'x env =
  OSSL_RECORD_RETURN_SUCCESS :: int
  OSSL_RECORD_RETURN_FATAL :: int
  SSL3_RT_MAX_ENCRYPTED_LENGTH :: nat
  SSL3_RT_MAX_COMPRESSED_LENGTH :: nat
  SSL3_RT_MAX_ENCRYPTED_OVERHEAD :: nat
  EVP_MAX_MD_SIZE :: int
  DTLS_ANY_VERSION :: int
  DTLS1_VERSION_MAJOR :: int
  DTLS1_2_VERSION :: int
  DTLS1_VERSION :: int
  DTLS1_BAD_VER :: int
  read_n :: "'x OSSL_RECORD_LAYER \<Rightarrow> nat \<Rightarrow> nat \<Rightarrow> bool \<Rightarrow> bool \<Rightarrow> 'x read_n_result"
  tls_setup_read_buffer :: "'x OSSL_RECORD_LAYER \<Rightarrow> setup_result"
  mac :: "'x OSSL_RECORD_LAYER \<Rightarrow> bool \<Rightarrow> int \<times> byte list"
  cipher :: "'x OSSL_RECORD_LAYER \<Rightarrow> nat \<Rightarrow> 'x cipher_result"
  tls_do_uncompress :: "'x OSSL_RECORD_LAYER \<Rightarrow> bool \<times> SSL3_RECORD \<times> 'x"
  OPENSSL_malloc_ok :: "'x OSSL_RECORD_LAYER \<Rightarrow> bool"
  pitem_new_ok :: "'x OSSL_RECORD_LAYER \<Rightarrow> bool"
  BIO_write_ex_next :: "byte list list \<Rightarrow> byte list \<Rightarrow> bool"
  tls_free :: "'x OSSL_RECORD_LAYER \<Rightarrow> bool"

text \<open>\<^verbatim>\<open>EVP_MD_CTX_get0_md\<close>, which yields \<^verbatim>\<open>NULL\<close> for a \<^verbatim>\<open>NULL\<close> context.\<close>

definition EVP_MD_CTX_get0_md :: "int option option \<Rightarrow> int option" where
  "EVP_MD_CTX_get0_md ctx = (case ctx of None \<Rightarrow> None | Some md \<Rightarrow> md)"

text \<open>\<^verbatim>\<open>CRYPTO_memcmp(a, b, n) != 0\<close>\<close>

definition CRYPTO_memcmp_differs :: "byte list \<Rightarrow> byte list \<Rightarrow> nat \<Rightarrow> bool" where
  "CRYPTO_memcmp_differs a b n = (take n a \<noteq> take n b)"

subsection \<open>Record processing\<close>

text \<open>
  \<^verbatim>\<open>dtls_process_record\<close> leaves at many places; its model is cut at the places where
  the C function goes on after a block that can leave, each piece a definition of its
  own, in the order of the source. The error queue of \<^verbatim>\<open>ERR_set_mark\<close> and
  \<^verbatim>\<open>ERR_pop_to_mark\<close>, the trace output and the release of the MAC buffer do not
  change the layer and are left out.
\<close>

text \<open>
  The encrypt-then-MAC test
  \<^verbatim>\<open>i = rl->funcs->mac(rl, rr, md, 0); i == 0 || CRYPTO_memcmp(md, mac, mac_size) != 0\<close>,
  where \<^verbatim>\<open>mac = rr->data + rr->length\<close>.
\<close>

definition etm_mac_fails :: "'x env \<Rightarrow> 'x OSSL_RECORD_LAYER \<Rightarrow> nat \<Rightarrow> bool" where
  "etm_mac_fails env rl mac_size =
     (let mac_p = drop (rr_length (rrec rl)) (rr_data (rrec rl));
          (i, md) = mac env rl False
      in i = 0 \<or> CRYPTO_memcmp_differs md mac_p mac_size)"

text \<open>
  The MAC-then-encrypt test
  \<^verbatim>\<open>i == 0 || macbuf.mac == NULL || CRYPTO_memcmp(md, macbuf.mac, mac_size) != 0\<close>.
\<close>

definition mte_mac_fails :: "'x env \<Rightarrow> 'x OSSL_RECORD_LAYER \<Rightarrow> SSL_MAC_BUF \<Rightarrow> nat \<Rightarrow> bool" where
  "mte_mac_fails env rl macbuf mac_size =
     (let (i, md) = mac env rl False
      in i = 0 \<or> (case mb_mac macbuf of None \<Rightarrow> True
                    | Some m \<Rightarrow> CRYPTO_memcmp_differs md m mac_size))"

definition apply_cipher :: "'x OSSL_RECORD_LAYER \<Rightarrow> 'x cipher_result \<Rightarrow> 'x OSSL_RECORD_LAYER" where
  "apply_cipher rl cr = rl\<lparr>rrec := cr_rrec cr, alert := cr_alert cr,
     fatal_reason := cr_reason cr, ext := cr_ext cr\<rparr>"

text \<open>
  The decompression block (\<^verbatim>\<open>if (rl->compctx != NULL) ...\<close>): \<open>Inl\<close> is the layer at
  \<^verbatim>\<open>goto end\<close>, \<open>Inr\<close> the layer with which the function goes on.
\<close>

definition dtls_process_record_uncompress ::
  "'x env \<Rightarrow> 'x OSSL_RECORD_LAYER \<Rightarrow> 'x OSSL_RECORD_LAYER + 'x OSSL_RECORD_LAYER" where
  "dtls_process_record_uncompress env rl =
     (if compctx rl then
        (if rr_length (rrec rl) > SSL3_RT_MAX_COMPRESSED_LENGTH env
         then Inl (RLAYERfatal rl SSL_AD_RECORD_OVERFLOW SSL_R_COMPRESSED_LENGTH_TOO_LONG)
         else
           (let (ok, rr', x') = tls_do_uncompress env rl;
                rlu = rl\<lparr>rrec := rr', ext := x'\<rparr>
            in if \<not> ok
               then Inl (RLAYERfatal rlu SSL_AD_DECOMPRESSION_FAILURE SSL_R_BAD_DECOMPRESSION)
               else Inr rlu))
      else Inr rl)"

text \<open>
  From the maximum-fragment check to \<^verbatim>\<open>ret = 1\<close>: the only place where the replay
  window is updated.
\<close>

definition dtls_process_record_commit ::
  "'x OSSL_RECORD_LAYER \<Rightarrow> bitmap_ptr \<Rightarrow> int \<times> 'x OSSL_RECORD_LAYER" where
  "dtls_process_record_commit rl bp =
     (if rr_length (rrec rl) > max_frag_len rl
      then (0, RLAYERfatal rl SSL_AD_RECORD_OVERFLOW SSL_R_DATA_LENGTH_TOO_LONG)
      else (1, dtls_record_bitmap_update
                 (rl\<lparr>rrec := (rrec rl)\<lparr>rr_off := 0\<rparr>, packet_length := 0\<rparr>) bp))"

text \<open>
  From the decryption attempt on (\<^verbatim>\<open>ERR_set_mark\<close> to the label \<^verbatim>\<open>end\<close>), for the MAC
  size left after the encrypt-then-MAC block.
\<close>

definition dtls_process_record_decrypt ::
  "'x env \<Rightarrow> 'x OSSL_RECORD_LAYER \<Rightarrow> nat \<Rightarrow> bitmap_ptr \<Rightarrow> int \<times> 'x OSSL_RECORD_LAYER" where
  "dtls_process_record_decrypt env rl mac_size bp =
     (let cr = cipher env rl mac_size;
          macbuf = cr_macbuf cr;
          rl1 = apply_cipher rl cr
      in if enc_err cr = 0 then
           (if alert rl1 \<noteq> SSL_AD_NO_ALERT then (0, rl1)
            else (0, rl1\<lparr>rrec := (rrec rl1)\<lparr>rr_length := 0\<rparr>, packet_length := 0\<rparr>))
         else
           let enc_err2 =
             (if \<not> use_etm rl1 \<and> enc_ctx rl1 \<and> EVP_MD_CTX_get0_md (md_ctx rl1) \<noteq> None then
                (let e1 = (if mte_mac_fails env rl1 macbuf mac_size then 0 else enc_err cr)
                 in if rr_length (rrec rl1) > SSL3_RT_MAX_COMPRESSED_LENGTH env + mac_size
                    then 0 else e1)
              else enc_err cr)
           in if enc_err2 = 0 then
                (0, rl1\<lparr>rrec := (rrec rl1)\<lparr>rr_length := 0\<rparr>, packet_length := 0\<rparr>)
              else
                (case dtls_process_record_uncompress env rl1 of
                   Inl rlf \<Rightarrow> (0, rlf)
                 | Inr rl2 \<Rightarrow> dtls_process_record_commit rl2 bp))"

text \<open>
  \<^verbatim>\<open>dtls_process_record\<close>: 1 when the record was decrypted and verified, 0 otherwise
  (with \<^verbatim>\<open>rl->alert\<close> set when the failure is fatal).
\<close>

definition dtls_process_record ::
  "'x env \<Rightarrow> 'x OSSL_RECORD_LAYER \<Rightarrow> bitmap_ptr \<Rightarrow> int \<times> 'x OSSL_RECORD_LAYER" where
  "dtls_process_record env rl0 bp =
     (let rl1 = rl0\<lparr>rrec := (rrec rl0)\<lparr>rr_input := drop DTLS1_RT_HEADER_LENGTH (packet rl0)\<rparr>\<rparr>
      in if rr_length (rrec rl1) > SSL3_RT_MAX_ENCRYPTED_LENGTH env
         then (0, RLAYERfatal rl1 SSL_AD_RECORD_OVERFLOW SSL_R_ENCRYPTED_LENGTH_TOO_LONG)
         else
           let rl2 = rl1\<lparr>rrec := (rrec rl1)\<lparr>rr_data := rr_input (rrec rl1),
                                            rr_orig_len := rr_length (rrec rl1)\<rparr>\<rparr>;
               tmpmd = EVP_MD_CTX_get0_md (md_ctx rl2)
           in if (case tmpmd of None \<Rightarrow> False
                  | Some imac_size \<Rightarrow> \<not> (imac_size \<ge> 0 \<and> imac_size \<le> EVP_MAX_MD_SIZE env))
              then (0, RLAYERfatal rl2 SSL_AD_INTERNAL_ERROR ERR_R_EVP_LIB)
              else
                let mac_size = (case tmpmd of None \<Rightarrow> 0 | Some imac_size \<Rightarrow> nat imac_size)
                in if use_etm rl2 \<and> md_ctx rl2 \<noteq> None then
                     (if rr_orig_len (rrec rl2) < mac_size
                      then (0, RLAYERfatal rl2 SSL_AD_DECODE_ERROR SSL_R_LENGTH_TOO_SHORT)
                      else
                        let rl3 = rl2\<lparr>rrec := (rrec rl2)\<lparr>rr_length :=
                                                    rr_length (rrec rl2) - mac_size\<rparr>\<rparr>
                        in if etm_mac_fails env rl3 mac_size
                           then (0, RLAYERfatal rl3 SSL_AD_BAD_RECORD_MAC
                                      SSL_R_DECRYPTION_FAILED_OR_BAD_RECORD_MAC)
                           else dtls_process_record_decrypt env rl3 0 bp)
                   else dtls_process_record_decrypt env rl2 mac_size bp)"

text \<open>
  Names for what the theorems about \<^verbatim>\<open>dtls_process_record\<close> speak of: the two replay
  windows of a layer; the MAC size the function computes from the digest context; the
  layer once \<^verbatim>\<open>rr->input\<close>, \<^verbatim>\<open>rr->data\<close> and \<^verbatim>\<open>rr->orig_len\<close> are set (the argument of
  the cipher when the encrypt-then-MAC block is skipped); and the layer once the
  trailing MAC is taken off \<^verbatim>\<open>rr->length\<close> (the argument of the encrypt-then-MAC test).
\<close>

definition windows :: "'x OSSL_RECORD_LAYER \<Rightarrow> DTLS_BITMAP \<times> DTLS_BITMAP" where
  "windows rl = (bitmap rl, next_bitmap rl)"

definition mac_size_of :: "'x OSSL_RECORD_LAYER \<Rightarrow> nat" where
  "mac_size_of rl =
     (case EVP_MD_CTX_get0_md (md_ctx rl) of None \<Rightarrow> 0 | Some imac_size \<Rightarrow> nat imac_size)"

definition record_in_place :: "'x OSSL_RECORD_LAYER \<Rightarrow> 'x OSSL_RECORD_LAYER" where
  "record_in_place rl =
     rl\<lparr>rrec := (rrec rl)\<lparr>rr_input := drop DTLS1_RT_HEADER_LENGTH (packet rl),
                          rr_data := drop DTLS1_RT_HEADER_LENGTH (packet rl),
                          rr_orig_len := rr_length (rrec rl)\<rparr>\<rparr>"

definition etm_stripped :: "'x OSSL_RECORD_LAYER \<Rightarrow> 'x OSSL_RECORD_LAYER" where
  "etm_stripped rl =
     (record_in_place rl)\<lparr>rrec := (rrec (record_in_place rl))\<lparr>rr_length :=
        rr_length (rrec rl) - mac_size_of rl\<rparr>\<rparr>"

subsection \<open>Deferred record queues\<close>

text \<open>
  Modelled from the spec: the priority queue of \<^verbatim>\<open>ssl/pqueue.c\<close> is not part of the
  sources at hand. By the spec (4.5) it is ordered by the 8-byte big-endian priority,
  \<open>insert\<close> drops an item whose priority is already present (the C function then
  returns \<^verbatim>\<open>NULL\<close>), and \<open>pop\<close> removes and returns the item of smallest priority, or
  nothing. A queue is the list of its items, smallest priority first.
\<close>

definition pqueue_new :: pqueue where
  "pqueue_new = []"

definition pqueue_size :: "pqueue \<Rightarrow> nat" where
  "pqueue_size q = length q"

fun pqueue_insert :: "pqueue \<Rightarrow> pitem \<Rightarrow> pqueue option" where
  "pqueue_insert [] item = Some [item]"
| "pqueue_insert (x # xs) item =
     (if n2l8 (fst item) = n2l8 (fst x) then None
      else if n2l8 (fst item) < n2l8 (fst x) then Some (item # x # xs)
      else map_option ((#) x) (pqueue_insert xs item))"

fun pqueue_pop :: "pqueue \<Rightarrow> pitem option \<times> pqueue" where
  "pqueue_pop [] = (None, [])"
| "pqueue_pop (x # xs) = (Some x, xs)"

text \<open>\<^verbatim>\<open>record_pqueue *queue\<close> points to one of the two queues of the layer.\<close>

datatype queue_ptr = UnprocessedRcds | ProcessedRcds

definition get_queue :: "'x OSSL_RECORD_LAYER \<Rightarrow> queue_ptr \<Rightarrow> record_pqueue" where
  "get_queue rl qp =
     (case qp of UnprocessedRcds \<Rightarrow> unprocessed_rcds rl | ProcessedRcds \<Rightarrow> processed_rcds rl)"

definition set_queue_q :: "'x OSSL_RECORD_LAYER \<Rightarrow> queue_ptr \<Rightarrow> pqueue \<Rightarrow> 'x OSSL_RECORD_LAYER" where
  "set_queue_q rl qp q =
     (case qp of
        UnprocessedRcds \<Rightarrow> rl\<lparr>unprocessed_rcds := (unprocessed_rcds rl)\<lparr>pq_q := Some q\<rparr>\<rparr>
      | ProcessedRcds \<Rightarrow> rl\<lparr>processed_rcds := (processed_rcds rl)\<lparr>pq_q := Some q\<rparr>\<rparr>)"

text \<open>
  \<^verbatim>\<open>dtls_rlayer_buffer_record\<close>: 0 when the queue is full, -1 on an allocation failure
  (after \<^verbatim>\<open>RLAYERfatal\<close>), 1 otherwise. The result is \<open>None\<close> where the C code would
  dereference a \<^verbatim>\<open>NULL\<close> queue; a layer built by \<^verbatim>\<open>dtls_new_record_layer\<close> has both
  queues allocated.
\<close>

definition dtls_rlayer_buffer_record ::
  "'x env \<Rightarrow> 'x OSSL_RECORD_LAYER \<Rightarrow> queue_ptr \<Rightarrow> seq_num \<Rightarrow> (int \<times> 'x OSSL_RECORD_LAYER) option" where
  "dtls_rlayer_buffer_record env rl qp priority =
     (case pq_q (get_queue rl qp) of
        None \<Rightarrow> None
      | Some q \<Rightarrow>
          if pqueue_size q \<ge> 100 then Some (0, rl)
          else if \<not> OPENSSL_malloc_ok env rl \<or> \<not> pitem_new_ok env rl
          then Some (- 1, RLAYERfatal rl SSL_AD_INTERNAL_ERROR ERR_R_INTERNAL_ERROR)
          else
            let rdata = \<lparr>rd_packet = packet rl, rd_packet_length = packet_length rl,
                         rd_rbuf = rbuf rl, rd_rrec = rrec rl\<rparr>;
                item = (priority, rdata);
                rl1 = rl\<lparr>packet := [], packet_length := 0, rbuf := SSL3_BUFFER_zero,
                         rrec := SSL3_RECORD_zero\<rparr>;
                sr = tls_setup_read_buffer env rl1;
                rl2 = rl1\<lparr>rbuf := sr_rbuf sr, alert := sr_alert sr, fatal_reason := sr_reason sr\<rparr>
            in if \<not> sr_ok sr then Some (- 1, rl2)
               else (case pqueue_insert q item of
                       None \<Rightarrow> Some (1, rl2)
                     | Some q' \<Rightarrow> Some (1, set_queue_q rl2 qp q')))"

text \<open>
  \<^verbatim>\<open>memcpy(&(rl->sequence[2]), p, 6)\<close> for \<open>p\<close> at offset 5 of the packet: the low six
  bytes of the sequence number are the bytes 5 to 10 of the record header.
\<close>

fun set_sequence_low :: "seq_num \<Rightarrow> byte list \<Rightarrow> seq_num" where
  "set_sequence_low (SeqNum s0 s1 s2 s3 s4 s5 s6 s7) p =
     SeqNum s0 s1 (p ! 5) (p ! 6) (p ! 7) (p ! 8) (p ! 9) (p ! 10)"

definition dtls_copy_rlayer_record :: "'x OSSL_RECORD_LAYER \<Rightarrow> pitem \<Rightarrow> int \<times> 'x OSSL_RECORD_LAYER" where
  "dtls_copy_rlayer_record rl item =
     (let rdata = snd item
      in (1, rl\<lparr>packet := rd_packet rdata, packet_length := rd_packet_length rdata,
                rbuf := rd_rbuf rdata, rrec := rd_rrec rdata,
                sequence := set_sequence_low (sequence rl) (rd_packet rdata)\<rparr>))"

definition dtls_retrieve_rlayer_buffered_record ::
  "'x OSSL_RECORD_LAYER \<Rightarrow> queue_ptr \<Rightarrow> (int \<times> 'x OSSL_RECORD_LAYER) option" where
  "dtls_retrieve_rlayer_buffered_record rl qp =
     (case pq_q (get_queue rl qp) of
        None \<Rightarrow> None
      | Some q \<Rightarrow>
          (case pqueue_pop q of
             (Some item, q') \<Rightarrow> Some (1, snd (dtls_copy_rlayer_record (set_queue_q rl qp q') item))
           | (None, q') \<Rightarrow> Some (0, rl)))"

subsection \<open>The read path\<close>

text \<open>
  Modelled from the spec: the macro \<^verbatim>\<open>n2s\<close> of \<^verbatim>\<open>ssl_local.h\<close> is not part of the
  sources at hand; by the spec (section 6) the 16-bit header fields are big-endian.
\<close>

definition n2s :: "byte \<Rightarrow> byte \<Rightarrow> 16 word" where
  "n2s c0 c1 = push_bit 8 (ucast c0) OR ucast c1"

text \<open>
  One pass of \<^verbatim>\<open>dtls_get_more_records\<close> from the label \<^verbatim>\<open>again\<close> either returns a code
  to the caller or jumps back to \<^verbatim>\<open>again\<close>; \<open>Fault\<close> is the dereference of a \<^verbatim>\<open>NULL\<close>
  queue.
\<close>

datatype 'x step = Return int "'x OSSL_RECORD_LAYER" | Again "'x OSSL_RECORD_LAYER" | Fault

text \<open>The recurring \<^verbatim>\<open>rr->length = 0; rl->packet_length = 0;\<close> before \<^verbatim>\<open>goto again\<close>.\<close>

definition dump_record :: "'x OSSL_RECORD_LAYER \<Rightarrow> 'x OSSL_RECORD_LAYER" where
  "dump_record rl = rl\<lparr>rrec := (rrec rl)\<lparr>rr_length := 0\<rparr>, packet_length := 0\<rparr>"

definition apply_read_n :: "'x OSSL_RECORD_LAYER \<Rightarrow> 'x read_n_result \<Rightarrow> 'x OSSL_RECORD_LAYER" where
  "apply_read_n rl r = rl\<lparr>packet := rn_packet r, packet_length := rn_packet_length r,
     rbuf := rn_rbuf r, alert := rn_alert r, fatal_reason := rn_reason r, ext := rn_ext r\<rparr>"

text \<open>
  From \<^verbatim>\<open>if (rr->length == 0) goto again;\<close> to the end of the function: a next-epoch
  record is buffered (during the handshake) or dropped, any other record is processed.
\<close>

definition dtls_get_more_records_deliver ::
  "'x env \<Rightarrow> 'x OSSL_RECORD_LAYER \<Rightarrow> bitmap_ptr \<Rightarrow> bool \<Rightarrow> 'x step" where
  "dtls_get_more_records_deliver env rl bp is_next_epoch =
     (if rr_length (rrec rl) = 0 then Again rl
      else if is_next_epoch then
        (if in_init rl then
           (case dtls_rlayer_buffer_record env rl UnprocessedRcds (rr_seq_num (rrec rl)) of
              None \<Rightarrow> Fault
            | Some (r, rl') \<Rightarrow>
                if r < 0 then Return (OSSL_RECORD_RETURN_FATAL env) rl'
                else Again (dump_record rl'))
         else Again (dump_record rl))
      else
        (case dtls_process_record env rl bp of
           (r, rl') \<Rightarrow>
             if r = 0 then
               (if alert rl' \<noteq> SSL_AD_NO_ALERT then Return (OSSL_RECORD_RETURN_FATAL env) rl'
                else Again (dump_record rl'))
             else Return (OSSL_RECORD_RETURN_SUCCESS env) (rl'\<lparr>num_recs := 1\<rparr>)))"

text \<open>
  From the comment \<^verbatim>\<open>rl->rstate == SSL_ST_READ_BODY, get and decode the data\<close> on: the
  body is read, the epoch is matched, the replay window is consulted (unless the
  transport is SCTP).
\<close>

definition dtls_get_more_records_body :: "'x env \<Rightarrow> 'x OSSL_RECORD_LAYER \<Rightarrow> 'x step" where
  "dtls_get_more_records_body env rl =
     (let more = rr_length (rrec rl);
          need = (rr_length (rrec rl) > size_t_sub (packet_length rl) DTLS1_RT_HEADER_LENGTH);
          r = read_n env rl more more True True;
          rl1 = (if need then apply_read_n rl r else rl)
      in if need \<and> (rn_ret r < OSSL_RECORD_RETURN_SUCCESS env \<or> rn_readbytes r \<noteq> more) then
           (if alert rl1 \<noteq> SSL_AD_NO_ALERT then Return (OSSL_RECORD_RETURN_FATAL env) rl1
            else Again (dump_record rl1))
         else
           let rl2 = rl1\<lparr>rstate := SSL_ST_READ_HEADER\<rparr>
           in case dtls_get_bitmap rl2 (rrec rl2) of
                (None, is_next_epoch) \<Rightarrow> Again (dump_record rl2)
              | (Some bp, is_next_epoch) \<Rightarrow>
                  if \<not> bio_is_sctp rl2 then
                    (case dtls_record_replay_check rl2 bp of
                       (ok, rl3) \<Rightarrow>
                         if ok = 0 then Again (dump_record rl3)
                         else dtls_get_more_records_deliver env rl3 bp is_next_epoch)
                  else dtls_get_more_records_deliver env rl2 bp is_next_epoch)"

text \<open>
  \<^verbatim>\<open>Pull apart the header into the DTLS1_RECORD\<close>: the state is set to
  \<^verbatim>\<open>SSL_ST_READ_BODY\<close>, and type, epoch, sequence number and length are taken from the
  13 header bytes at \<^verbatim>\<open>rl->packet\<close>. The packet buffer holds at least
  \<^verbatim>\<open>DTLS1_RT_HEADER_LENGTH\<close> bytes. The message callback does not change the layer and
  is left out.
\<close>

definition parse_header :: "'x OSSL_RECORD_LAYER \<Rightarrow> 'x OSSL_RECORD_LAYER" where
  "parse_header rl =
     (let p = packet rl
      in rl\<lparr>rstate := SSL_ST_READ_BODY,
            rrec := (rrec rl)\<lparr>rr_type := uint (p ! 0),
                                rr_epoch := ucast (n2s (p ! 3) (p ! 4)),
                                rr_length := unat (n2s (p ! 11) (p ! 12))\<rparr>,
            sequence := set_sequence_low (sequence rl) p\<rparr>)"

text \<open>\<^verbatim>\<open>ssl_major\<close> and \<^verbatim>\<open>version = (ssl_major << 8) | ssl_minor\<close> of the header.\<close>

definition header_major :: "'x OSSL_RECORD_LAYER \<Rightarrow> int" where
  "header_major rl = uint (packet rl ! 1)"

definition header_version :: "'x OSSL_RECORD_LAYER \<Rightarrow> int" where
  "header_version rl = uint (n2s (packet rl ! 1) (packet rl ! 2))"

text \<open>
  One pass from the label \<^verbatim>\<open>again\<close>: a record waiting in \<^verbatim>\<open>processed_rcds\<close> is
  returned at once; otherwise the header is read, parsed and checked (unless a header
  is already there) and the pass goes on with the body.
\<close>

definition dtls_get_more_records_again :: "'x env \<Rightarrow> 'x OSSL_RECORD_LAYER \<Rightarrow> 'x step" where
  "dtls_get_more_records_again env rl =
     (case dtls_retrieve_rlayer_buffered_record rl ProcessedRcds of
        None \<Rightarrow> Fault
      | Some (got, rl1) \<Rightarrow>
          if got \<noteq> 0 then Return (OSSL_RECORD_RETURN_SUCCESS env) (rl1\<lparr>num_recs := 1\<rparr>)
          else if rstate rl1 \<noteq> SSL_ST_READ_BODY \<or> packet_length rl1 < DTLS1_RT_HEADER_LENGTH then
            (let r = read_n env rl1 DTLS1_RT_HEADER_LENGTH (blen (rbuf rl1)) False True;
                 rl2 = apply_read_n rl1 r
             in if rn_ret r < OSSL_RECORD_RETURN_SUCCESS env then Return (rn_ret r) rl2
                else if packet_length rl2 \<noteq> DTLS1_RT_HEADER_LENGTH
                then Again (rl2\<lparr>packet_length := 0\<rparr>)
                else
                  let rl3 = parse_header rl2
                  in if \<not> is_first_record rl3 \<and> rr_type (rrec rl3) \<noteq> SSL3_RT_ALERT
                        \<and> header_version rl2 \<noteq> version rl3
                     then Again (dump_record rl3)
                     else if header_major rl2 \<noteq> (if version rl3 = DTLS_ANY_VERSION env
                                                    then DTLS1_VERSION_MAJOR env
                                                    else drop_bit 8 (version rl3))
                     then Again (dump_record rl3)
                     else if rr_length (rrec rl3) > SSL3_RT_MAX_ENCRYPTED_LENGTH env
                     then Again (dump_record rl3)
                     else if rr_length (rrec rl3)
                               > max_frag_len rl3 + SSL3_RT_MAX_ENCRYPTED_OVERHEAD env
                     then Again (dump_record rl3)
                     else dtls_get_more_records_body env rl3)
          else dtls_get_more_records_body env rl1)"

text \<open>
  The loop over \<^verbatim>\<open>again\<close>. It need not end (the transport may deliver datagrams that
  are dropped one after the other), so its result is an \<open>option\<close>: \<open>None\<close> when it
  never returns.
\<close>

datatype 'x outcome = Returned int "'x OSSL_RECORD_LAYER" | Faulted

partial_function (option) dtls_get_more_records_loop ::
  "'x env \<Rightarrow> 'x OSSL_RECORD_LAYER \<Rightarrow> 'x outcome option" where
  "dtls_get_more_records_loop env rl =
     (case dtls_get_more_records_again env rl of
        Return r rl' \<Rightarrow> Some (Returned r rl')
      | Fault \<Rightarrow> Some Faulted
      | Again rl' \<Rightarrow> dtls_get_more_records_loop env rl')"

definition dtls_get_more_records :: "'x env \<Rightarrow> 'x OSSL_RECORD_LAYER \<Rightarrow> 'x outcome option" where
  "dtls_get_more_records env rl =
     (let rl1 = rl\<lparr>num_recs := 0, curr_rec := 0, num_released := 0\<rparr>
      in if buf (rbuf rl1) = None then
           (let sr = tls_setup_read_buffer env rl1;
                rl2 = rl1\<lparr>rbuf := sr_rbuf sr, alert := sr_alert sr, fatal_reason := sr_reason sr\<rparr>
            in if \<not> sr_ok sr then Some (Returned (OSSL_RECORD_RETURN_FATAL env) rl2)
               else dtls_get_more_records_loop env rl2)
         else dtls_get_more_records_loop env rl1)"

subsection \<open>Teardown and construction\<close>

text \<open>The bytes of a call \<^verbatim>\<open>BIO_write_ex(rl->next, data, dlen, &written)\<close>.\<close>

definition rbuf_left_bytes :: "SSL3_BUFFER \<Rightarrow> byte list" where
  "rbuf_left_bytes b =
     (case buf b of None \<Rightarrow> [] | Some bs \<Rightarrow> take (left b) (drop (offset b) bs))"

definition rdata_packet_bytes :: "DTLS_RLAYER_RECORD_DATA \<Rightarrow> byte list" where
  "rdata_packet_bytes rdata = take (rd_packet_length rdata) (rd_packet rdata)"

text \<open>
  The loop \<^verbatim>\<open>while ((item = pqueue_pop(rl->unprocessed_rcds.q)) != NULL)\<close> of
  \<^verbatim>\<open>dtls_free\<close>, on the queue, the accumulated \<^verbatim>\<open>ret\<close> and the log of the sink.
\<close>

function dtls_free_unprocessed ::
  "'x env \<Rightarrow> pqueue \<Rightarrow> bool \<Rightarrow> byte list list \<Rightarrow> bool \<times> byte list list" where
  "dtls_free_unprocessed env q ret sink =
     (case pqueue_pop q of
        (None, q') \<Rightarrow> (ret, sink)
      | (Some item, q') \<Rightarrow>
          (let bytes = rdata_packet_bytes (snd item);
               w = BIO_write_ex_next env sink bytes
           in dtls_free_unprocessed env q' (ret \<and> w) (sink @ [bytes])))"
  by pat_completeness auto
termination
  apply (relation "measure (\<lambda>(env, q, ret, sink). length q)")
   apply simp
  subgoal for env q
    by (cases q) auto
  done

text \<open>
  \<^verbatim>\<open>dtls_free\<close>: the return value, and the layer with what was pushed to
  \<^verbatim>\<open>rl->next\<close>. The queues are freed, which leaves nothing to pop.
\<close>

definition dtls_free :: "'x env \<Rightarrow> 'x OSSL_RECORD_LAYER \<Rightarrow> bool \<times> 'x OSSL_RECORD_LAYER" where
  "dtls_free env rl =
     (let lft = left (rbuf rl);
          ret0 = (if lft > 0 then BIO_write_ex_next env (next_bio rl) (rbuf_left_bytes (rbuf rl))
                  else True);
          rl1 = (if lft > 0
                 then rl\<lparr>next_bio := next_bio rl @ [rbuf_left_bytes (rbuf rl)],
                         rbuf := (rbuf rl)\<lparr>left := 0\<rparr>\<rparr>
                 else rl);
          (ret1, sink1) = (case pq_q (unprocessed_rcds rl1) of
                             None \<Rightarrow> (ret0, next_bio rl1)
                           | Some q \<Rightarrow> dtls_free_unprocessed env q ret0 (next_bio rl1));
          rl2 = rl1\<lparr>next_bio := sink1,
                   unprocessed_rcds := (unprocessed_rcds rl1)\<lparr>pq_q := None\<rparr>,
                   processed_rcds := (processed_rcds rl1)\<lparr>pq_q := None\<rparr>\<rparr>
      in (tls_free env rl2 \<and> ret1, rl2))"

text \<open>
  \<^verbatim>\<open>dtls_new_record_layer\<close>. Its collaborators are arguments: \<open>base\<close> is the return
  code of \<^verbatim>\<open>tls_int_new_record_layer\<close> with the layer it allocates on success (no layer
  is handed out when it fails), \<open>q1\<close> and \<open>q2\<close> are the results of the two calls of
  \<^verbatim>\<open>pqueue_new\<close>, and \<open>set_crypto_state\<close> is the method of the table chosen for
  \<open>vers\<close>. The result is the return code and \<^verbatim>\<open>*retrl\<close>. Where a queue could not be
  allocated the C function calls \<^verbatim>\<open>dtls_free\<close> on the new layer, whose read buffer is
  still empty, and hands out no layer.
\<close>

definition dtls_new_record_layer ::
  "'x env \<Rightarrow> int \<times> 'x OSSL_RECORD_LAYER \<Rightarrow> pqueue option \<Rightarrow> pqueue option
     \<Rightarrow> ('x OSSL_RECORD_LAYER \<Rightarrow> int) \<Rightarrow> int \<Rightarrow> 16 word
     \<Rightarrow> int \<times> 'x OSSL_RECORD_LAYER option" where
  "dtls_new_record_layer env base q1 q2 set_crypto_state vers epoch' =
     (case base of
        (ret, rl) \<Rightarrow>
          if ret \<noteq> OSSL_RECORD_RETURN_SUCCESS env then (ret, None)
          else
            let rl1 = rl\<lparr>unprocessed_rcds := (unprocessed_rcds rl)\<lparr>pq_q := q1\<rparr>,
                        processed_rcds := (processed_rcds rl)\<lparr>pq_q := q2\<rparr>\<rparr>
            in if q1 = None \<or> q2 = None then (OSSL_RECORD_RETURN_FATAL env, None)
               else
                 let rl2 = rl1\<lparr>unprocessed_rcds := (unprocessed_rcds rl1)\<lparr>pq_epoch := epoch' + 1\<rparr>,
                              processed_rcds := (processed_rcds rl1)\<lparr>pq_epoch := epoch'\<rparr>,
                              isdtls := True, epoch := epoch', in_init := True\<rparr>
                 in if vers = DTLS_ANY_VERSION env \<or> vers = DTLS1_2_VERSION env
                       \<or> vers = DTLS1_VERSION env \<or> vers = DTLS1_BAD_VER env
                    then (let r = set_crypto_state rl2
                          in if r \<noteq> OSSL_RECORD_RETURN_SUCCESS env then (r, None)
                             else (r, Some rl2))
                    else (OSSL_RECORD_RETURN_FATAL env, None))"

subsection \<open>The legacy write-pending helper\<close>

text \<open>
  The connection \<^verbatim>\<open>s = rl->cbarg\<close>, as far as \<^verbatim>\<open>ssl3_write_pending\<close> uses it.
  \<open>wpend_buf\<close> is an address; \<open>mode_accept_moving_write_buffer\<close> is
  \<^verbatim>\<open>s->mode & SSL_MODE_ACCEPT_MOVING_WRITE_BUFFER\<close>; \<open>connection_is_dtls\<close> is
  \<^verbatim>\<open>SSL_CONNECTION_IS_DTLS(s)\<close>; \<open>statem_fatal\<close> is what \<^verbatim>\<open>SSLfatal\<close> recorded.
\<close>

datatype rwstate_t = SSL_NOTHING | SSL_WRITING | SSL_READING

record 'b SSL_CONNECTION =
  wpend_tot :: nat
  wpend_buf :: nat
  wpend_type :: int
  wpend_ret :: nat
  mode_accept_moving_write_buffer :: bool
  connection_is_dtls :: bool
  wbio :: "'b option"
  rwstate :: rwstate_t
  statem_fatal :: "(alert \<times> reason) option"

text \<open>
  Modelled from the spec: \<^verbatim>\<open>SSLfatal\<close> (\<^verbatim>\<open>statem.h\<close>) is not part of the sources at
  hand; as the fatal-raise site of the connection it records the alert and the reason.
\<close>

definition SSLfatal :: "'b SSL_CONNECTION \<Rightarrow> alert \<Rightarrow> reason \<Rightarrow> 'b SSL_CONNECTION" where
  "SSLfatal s al r = s\<lparr>statem_fatal := Some (al, r)\<rparr>"

text \<open>The BIO library, as \<^verbatim>\<open>ssl3_write_pending\<close> uses it on \<^verbatim>\<open>s->wbio\<close>.\<close>

record 'b bio_env =
  BIO_get_ktls_send :: "'b \<Rightarrow> bool"
  BIO_flush :: "'b \<Rightarrow> int \<times> 'b"
  BIO_set_ktls_ctrl_msg :: "'b \<Rightarrow> int \<Rightarrow> 'b"
  BIO_write :: "'b \<Rightarrow> byte list \<Rightarrow> int \<times> 'b"

text \<open>What a call of \<^verbatim>\<open>ssl3_write_pending\<close> leaves behind.\<close>

record 'b write_result =
  wr_ret :: int
  wr_conn :: "'b SSL_CONNECTION"
  wr_wbuf :: SSL3_BUFFER
  wr_written :: "nat option"

text \<open>
  The loop \<^verbatim>\<open>for (;;)\<close> of \<^verbatim>\<open>ssl3_write_pending\<close>, on the connection, the write buffer
  \<^verbatim>\<open>wb[0]\<close> and \<^verbatim>\<open>tmpwrit\<close>. The length passed to \<^verbatim>\<open>BIO_write\<close> is cast to
  \<^verbatim>\<open>unsigned int\<close>; \<^verbatim>\<open>SSL3_BUFFER_sub_left\<close> subtracts on \<^verbatim>\<open>size_t\<close>. The loop need
  not end for an arbitrary BIO, so its result is an \<open>option\<close>.
\<close>

partial_function (option) ssl3_write_pending_loop ::
  "'b bio_env \<Rightarrow> int \<Rightarrow> 'b SSL_CONNECTION \<Rightarrow> SSL3_BUFFER \<Rightarrow> nat \<Rightarrow> 'b write_result option" where
  "ssl3_write_pending_loop benv type s wb tmpwrit =
     (case wbio s of
        None \<Rightarrow>
          (let s1 = SSLfatal s SSL_AD_INTERNAL_ERROR SSL_R_BIO_NOT_SET
           in Some \<lparr>wr_ret = - 1, wr_conn = s1,
                    wr_wbuf = (if connection_is_dtls s1 then wb\<lparr>left := 0\<rparr> else wb),
                    wr_written = None\<rparr>)
      | Some b \<Rightarrow>
          let s1 = s\<lparr>rwstate := SSL_WRITING\<rparr>;
              ktls = (BIO_get_ktls_send benv b \<and> type \<noteq> SSL3_RT_APPLICATION_DATA);
              fl = BIO_flush benv b
          in if ktls \<and> fst fl \<le> 0
             then Some \<lparr>wr_ret = fst fl, wr_conn = s1\<lparr>wbio := Some (snd fl)\<rparr>, wr_wbuf = wb,
                        wr_written = None\<rparr>
             else
               let b1 = (if ktls then BIO_set_ktls_ctrl_msg benv (snd fl) type else b);
                   bytes = take (left wb mod 2 ^ 32)
                             (drop (offset wb) (case buf wb of None \<Rightarrow> [] | Some bs \<Rightarrow> bs));
                   (i, b2) = BIO_write benv b1 bytes;
                   s2 = s1\<lparr>wbio := Some b2\<rparr>;
                   tmpwrit' = (if i \<ge> 0 then nat i else tmpwrit)
               in if i \<ge> 0 \<and> tmpwrit' = left wb
                  then Some \<lparr>wr_ret = 1, wr_conn = s2\<lparr>rwstate := SSL_NOTHING\<rparr>,
                             wr_wbuf = wb\<lparr>left := 0, offset := offset wb + tmpwrit'\<rparr>,
                             wr_written = Some (wpend_ret s2)\<rparr>
                  else if i \<le> 0
                  then Some \<lparr>wr_ret = i, wr_conn = s2,
                             wr_wbuf = (if connection_is_dtls s2 then wb\<lparr>left := 0\<rparr> else wb),
                             wr_written = None\<rparr>
                  else ssl3_write_pending_loop benv type s2
                         (wb\<lparr>offset := offset wb + tmpwrit',
                             left := size_t_sub (left wb) tmpwrit'\<rparr>)
                         tmpwrit')"

definition ssl3_write_pending ::
  "'b bio_env \<Rightarrow> 'b SSL_CONNECTION \<Rightarrow> SSL3_BUFFER \<Rightarrow> int \<Rightarrow> nat \<Rightarrow> nat \<Rightarrow> 'b write_result option" where
  "ssl3_write_pending benv s wb type buf_addr len =
     (if wpend_tot s > len
         \<or> (\<not> mode_accept_moving_write_buffer s \<and> wpend_buf s \<noteq> buf_addr)
         \<or> wpend_type s \<noteq> type
      then Some \<lparr>wr_ret = - 1,
                 wr_conn = SSLfatal s SSL_AD_INTERNAL_ERROR SSL_R_BAD_WRITE_RETRY,
                 wr_wbuf = wb, wr_written = None\<rparr>
      else ssl3_write_pending_loop benv type s wb 0)"

text \<open>
  The last statements of \<^verbatim>\<open>dtls_write_records\<close>, once the record stands in the write
  buffer: the arguments of the template (\<^verbatim>\<open>type\<close>, \<^verbatim>\<open>buf\<close>, \<^verbatim>\<open>buflen\<close>) are memorised
  and the buffer is written.
\<close>

definition dtls_write_records_flush ::
  "'b bio_env \<Rightarrow> 'b SSL_CONNECTION \<Rightarrow> SSL3_BUFFER \<Rightarrow> int \<Rightarrow> nat \<Rightarrow> nat \<Rightarrow> 'b write_result option" where
  "dtls_write_records_flush benv sc wb templ_type templ_buf templ_buflen =
     (let sc1 = sc\<lparr>wpend_tot := templ_buflen, wpend_buf := templ_buf,
                   wpend_type := templ_type, wpend_ret := templ_buflen\<rparr>
      in ssl3_write_pending benv sc1 wb templ_type templ_buf templ_buflen)"

text \<open>
  The queues a layer can hold: obtained from \<^verbatim>\<open>pqueue_new\<close> by insertions and pops.
\<close>

inductive pqueue_reachable :: "pqueue \<Rightarrow> bool" where
  new: "pqueue_reachable pqueue_new"
| insert: "pqueue_reachable q \<Longrightarrow> pqueue_insert q item = Some q' \<Longrightarrow> pqueue_reachable q'"
| pop: "pqueue_reachable q \<Longrightarrow> pqueue_pop q = (x, q') \<Longrightarrow> pqueue_reachable q'"

text \<open>The priority of a queue item as a number.\<close>

definition priority :: "pitem \<Rightarrow> int" where
  "priority item = uint (n2l8 (fst item))"

text \<open>
  What holds of a deferred queue throughout the life of a layer: it is obtained from
  \<^verbatim>\<open>pqueue_new\<close> by insertions and pops, and it holds at most 100 items.
\<close>

definition queue_inv :: "record_pqueue \<Rightarrow> bool" where
  "queue_inv pq = (case pq_q pq of None \<Rightarrow> True
                   | Some q \<Rightarrow> pqueue_reachable q \<and> pqueue_size q \<le> 100)"

definition step_queue_inv :: "'x step \<Rightarrow> bool" where
  "step_queue_inv st =
     (case st of Return r rl \<Rightarrow> queue_inv (unprocessed_rcds rl)
      | Again rl \<Rightarrow> queue_inv (unprocessed_rcds rl)
      | Fault \<Rightarrow> True)"

subsection \<open>An instance\<close>

text \<open>
  A concrete layer and concrete collaborators, on which the theorems below are
  instantiated. The constants have the values of OpenSSL's headers. The transport is
  scripted: \<open>ext\<close> is the list of the results the next calls of \<open>read_n\<close> yield
  (return code, bytes read, packet, packet length), and an exhausted script answers
  \<^verbatim>\<open>OSSL_RECORD_RETURN_RETRY\<close> (0). The cipher is the null cipher, every MAC matches,
  every allocation and every write succeeds.
\<close>

type_synonym script = "(int \<times> nat \<times> byte list \<times> nat) list"

definition ex_read_n ::
  "script OSSL_RECORD_LAYER \<Rightarrow> nat \<Rightarrow> nat \<Rightarrow> bool \<Rightarrow> bool \<Rightarrow> script read_n_result" where
  "ex_read_n rl n mx ext_flag clearold =
     (case ext rl of
        [] \<Rightarrow> \<lparr>rn_ret = 0, rn_readbytes = 0, rn_packet = packet rl,
                rn_packet_length = packet_length rl, rn_rbuf = rbuf rl, rn_alert = alert rl,
                rn_reason = fatal_reason rl, rn_ext = []\<rparr>
      | (r, k, p, pl) # rest \<Rightarrow>
          \<lparr>rn_ret = r, rn_readbytes = k, rn_packet = p, rn_packet_length = pl,
           rn_rbuf = rbuf rl, rn_alert = alert rl, rn_reason = fatal_reason rl,
           rn_ext = rest\<rparr>)"

definition ex_env :: "script env" where
  "ex_env = \<lparr>OSSL_RECORD_RETURN_SUCCESS = 1, OSSL_RECORD_RETURN_FATAL = - 2,
     SSL3_RT_MAX_ENCRYPTED_LENGTH = 17728, SSL3_RT_MAX_COMPRESSED_LENGTH = 17408,
     SSL3_RT_MAX_ENCRYPTED_OVERHEAD = 320, EVP_MAX_MD_SIZE = 64,
     DTLS_ANY_VERSION = 131071, DTLS1_VERSION_MAJOR = 254,
     DTLS1_2_VERSION = 65277, DTLS1_VERSION = 65279, DTLS1_BAD_VER = 256,
     read_n = ex_read_n,
     tls_setup_read_buffer = (\<lambda>rl. \<lparr>sr_ok = True,
        sr_rbuf = \<lparr>buf = Some [], blen = 0, offset = 0, left = 0\<rparr>,
        sr_alert = alert rl, sr_reason = fatal_reason rl\<rparr>),
     mac = (\<lambda>rl sending. (1, [])),
     cipher = (\<lambda>rl mac_size. \<lparr>enc_err = 1, cr_rrec = rrec rl,
        cr_macbuf = \<lparr>mb_mac = Some [], mb_alloced = False\<rparr>,
        cr_alert = alert rl, cr_reason = fatal_reason rl, cr_ext = ext rl\<rparr>),
     tls_do_uncompress = (\<lambda>rl. (True, rrec rl, ext rl)),
     OPENSSL_malloc_ok = (\<lambda>rl. True),
     pitem_new_ok = (\<lambda>rl. True),
     BIO_write_ex_next = (\<lambda>sink bytes. True),
     tls_free = (\<lambda>rl. True)\<rparr>"

text \<open>
  A DTLS 1.2 read layer at epoch 3, as \<^verbatim>\<open>dtls_new_record_layer\<close> sets it up (the
  \<open>unprocessed\<close> queue carries epoch 4), in the handshake, with empty queues and
  windows that have seen nothing.
\<close>

definition ex_layer :: "script OSSL_RECORD_LAYER" where
  "ex_layer = \<lparr>version = 65277, epoch = 3, isdtls = True, is_first_record = False,
     in_init = True, use_etm = False, md_ctx = None, enc_ctx = False, compctx = False,
     max_frag_len = 16384, alert = SSL_AD_NO_ALERT, fatal_reason = None,
     rstate = SSL_ST_READ_HEADER,
     rbuf = \<lparr>buf = Some [], blen = 0, offset = 0, left = 0\<rparr>,
     packet = [], packet_length = 0, sequence = seq_num_zero, rrec = SSL3_RECORD_zero,
     num_recs = 0, curr_rec = 0, num_released = 0,
     bitmap = \<lparr>map_bits = 0, max_seq_num = seq_num_zero\<rparr>,
     next_bitmap = \<lparr>map_bits = 0, max_seq_num = seq_num_zero\<rparr>,
     unprocessed_rcds = \<lparr>pq_epoch = 4, pq_q = Some []\<rparr>,
     processed_rcds = \<lparr>pq_epoch = 3, pq_q = Some []\<rparr>,
     bio_is_sctp = False, next_bio = [], ext = []\<rparr>"

text \<open>A cipher that fails on every record without raising an alert.\<close>

definition ex_cipher_fails :: "script OSSL_RECORD_LAYER \<Rightarrow> nat \<Rightarrow> script cipher_result" where
  "ex_cipher_fails rl mac_size = \<lparr>enc_err = 0, cr_rrec = rrec rl,
     cr_macbuf = \<lparr>mb_mac = None, mb_alloced = False\<rparr>,
     cr_alert = alert rl, cr_reason = fatal_reason rl, cr_ext = ext rl\<rparr>"

text \<open>
  The same layer with 100 records of epoch 4 (sequence numbers 0 to 99) waiting in the
  \<open>unprocessed\<close> queue, and the script of a transport that delivers one handshake
  record of epoch 4, sequence number 200, with a body of one byte, and nothing more.
\<close>

definition ex_rdata :: DTLS_RLAYER_RECORD_DATA where
  "ex_rdata = \<lparr>rd_packet = [], rd_packet_length = 0, rd_rbuf = SSL3_BUFFER_zero,
     rd_rrec = SSL3_RECORD_zero\<rparr>"

definition ex_header :: "byte list" where
  "ex_header = [22, 254, 253, 0, 4, 0, 0, 0, 0, 0, 200, 0, 1]"

definition ex_full_layer :: "script OSSL_RECORD_LAYER" where
  "ex_full_layer = ex_layer\<lparr>
     unprocessed_rcds := \<lparr>pq_epoch = 4,
        pq_q = Some (map (\<lambda>i. (SeqNum 0 4 0 0 0 0 0 (of_nat i), ex_rdata)) [0..<100])\<rparr>,
     ext := [(1, 13, ex_header, 13), (1, 1, ex_header @ [0], 14)]\<rparr>"

text \<open>What the caller of \<^verbatim>\<open>dtls_get_more_records\<close> sees: the code and the alert.\<close>

definition outcome_code :: "'x outcome option \<Rightarrow> int option" where
  "outcome_code out = (case out of Some (Returned r rl) \<Rightarrow> Some r | _ \<Rightarrow> None)"

definition outcome_alert :: "'x outcome option \<Rightarrow> alert option" where
  "outcome_alert out = (case out of Some (Returned r rl) \<Rightarrow> Some (alert rl) | _ \<Rightarrow> None)"

text \<open>
  Two headers that carry the version of DTLS 1.0 (\<open>0xFEFF\<close>) on the DTLS 1.2 layer: a
  handshake record and an alert record, both of epoch 3 with a body of two bytes.
\<close>

definition ex_header_old_handshake :: "byte list" where
  "ex_header_old_handshake = [22, 254, 255, 0, 3, 0, 0, 0, 0, 0, 1, 0, 2]"

definition ex_header_old_alert :: "byte list" where
  "ex_header_old_alert = [21, 254, 255, 0, 3, 0, 0, 0, 0, 0, 1, 0, 2]"

text \<open>
  Two queued records: raw packets of 14 bytes with the sequence numbers 5 and 9, held
  in buffers that are longer than the packets.
\<close>

definition ex_item :: "byte \<Rightarrow> pitem" where
  "ex_item n = (SeqNum 0 0 0 0 0 0 0 n,
     \<lparr>rd_packet = [22, 254, 253, 0, 4, 0, 0, 0, 0, 0, n, 0, 1, 7, 0, 0],
      rd_packet_length = 14, rd_rbuf = SSL3_BUFFER_zero, rd_rrec = SSL3_RECORD_zero\<rparr>)"

text \<open>
  A connection with a pending write of 5 bytes of application data from the buffer at
  address 1000, a write buffer that holds 3 bytes, and a BIO that takes every byte it
  is given.
\<close>

definition ex_benv :: "unit bio_env" where
  "ex_benv = \<lparr>BIO_get_ktls_send = (\<lambda>b. False), BIO_flush = (\<lambda>b. (1, b)),
     BIO_set_ktls_ctrl_msg = (\<lambda>b t. b),
     BIO_write = (\<lambda>b bytes. (int (length bytes), b))\<rparr>"

definition ex_conn :: "unit SSL_CONNECTION" where
  "ex_conn = \<lparr>wpend_tot = 5, wpend_buf = 1000, wpend_type = 23, wpend_ret = 5,
     mode_accept_moving_write_buffer = False, connection_is_dtls = True,
     wbio = Some (), rwstate = SSL_NOTHING, statem_fatal = None\<rparr>"

definition ex_wbuf :: SSL3_BUFFER where
  "ex_wbuf = \<lparr>buf = Some [1, 2, 3], blen = 3, offset = 0, left = 3\<rparr>"

section \<open>Properties\<close>

subsection \<open>Saturating subtraction\<close>

lemma sint_sub64:
  fixes a b :: "64 word"
  shows "sint (a - b) =
    (if uint a - uint b \<ge> 2 ^ 63 then uint a - uint b - 2 ^ 64
     else if uint a - uint b < - (2 ^ 63) then uint a - uint b + 2 ^ 64
     else uint a - uint b)"
proof -
  have xa: "0 \<le> uint a" "uint a < 2 ^ 64" using uint_bounded [of a] by simp_all
  have xb: "0 \<le> uint b" "uint b < 2 ^ 64" using uint_bounded [of b] by simp_all
  define d where "d = uint a - uint b"
  have dr: "- (2 ^ 64) < d" "d < 2 ^ 64" using xa xb unfolding d_def by linarith+
  have s: "sint (a - b) = (d + 2 ^ 63) mod 2 ^ 64 - 2 ^ 63"
    by (simp add: sint_uint uint_word_ariths signed_take_bit_eq_take_bit_shift
        take_bit_eq_mod d_def mod_add_left_eq)
  consider (hi) "d \<ge> 2 ^ 63" | (lo) "d < - (2 ^ 63)" | (mid) "- (2 ^ 63) \<le> d" "d < 2 ^ 63"
    by linarith
  then have "(d + 2 ^ 63) mod 2 ^ 64 - 2 ^ 63 =
      (if d \<ge> 2 ^ 63 then d - 2 ^ 64 else if d < - (2 ^ 63) then d + 2 ^ 64 else d)"
  proof cases
    case hi
    have "(d + 2 ^ 63) mod 2 ^ 64 = (d + 2 ^ 63 - 2 ^ 64) mod 2 ^ 64"
      by (metis mod_diff_right_eq mod_self diff_zero)
    also have "\<dots> = d + 2 ^ 63 - 2 ^ 64"
      using hi dr by (intro mod_pos_pos_trivial) simp_all
    finally show ?thesis using hi by simp
  next
    case lo
    have "(d + 2 ^ 63) mod 2 ^ 64 = (d + 2 ^ 63 + 2 ^ 64) mod 2 ^ 64"
      by (metis mod_add_self2)
    also have "\<dots> = d + 2 ^ 63 + 2 ^ 64"
      using lo dr by (intro mod_pos_pos_trivial) simp_all
    finally show ?thesis using lo by simp
  next
    case mid
    have "(d + 2 ^ 63) mod 2 ^ 64 = d + 2 ^ 63"
      using mid by (intro mod_pos_pos_trivial) simp_all
    then show ?thesis using mid by simp
  qed
  with s show ?thesis by (simp add: d_def)
qed

lemma satsub_core:
  fixes l1 l2 :: "64 word"
  shows "(if l1 > l2 \<and> sint (l1 - l2) < 0 then 128
      else if l2 > l1 \<and> sint (l1 - l2) > 0 then - 128
      else if sint (l1 - l2) > 128 then 128
      else if sint (l1 - l2) < - 128 then - 128
      else sint (l1 - l2)) = max (- 128) (min 128 (uint l1 - uint l2))"
proof -
  have xa: "0 \<le> uint l1" "uint l1 < 2 ^ 64" using uint_bounded [of l1] by simp_all
  have xb: "0 \<le> uint l2" "uint l2 < 2 ^ 64" using uint_bounded [of l2] by simp_all
  define x where "x = uint l1"
  define y where "y = uint l2"
  have "(if y < x \<and> (if x - y \<ge> 2 ^ 63 then x - y - 2 ^ 64
                        else if x - y < - (2 ^ 63) then x - y + 2 ^ 64 else x - y) < 0 then 128
      else if x < y \<and> (if x - y \<ge> 2 ^ 63 then x - y - 2 ^ 64
                        else if x - y < - (2 ^ 63) then x - y + 2 ^ 64 else x - y) > 0 then - 128
      else if (if x - y \<ge> 2 ^ 63 then x - y - 2 ^ 64
                        else if x - y < - (2 ^ 63) then x - y + 2 ^ 64 else x - y) > 128 then 128
      else if (if x - y \<ge> 2 ^ 63 then x - y - 2 ^ 64
                        else if x - y < - (2 ^ 63) then x - y + 2 ^ 64 else x - y) < - 128 then - 128
      else (if x - y \<ge> 2 ^ 63 then x - y - 2 ^ 64
                        else if x - y < - (2 ^ 63) then x - y + 2 ^ 64 else x - y))
     = max (- 128) (min 128 (x - y))"
    using xa xb unfolding x_def [symmetric] y_def [symmetric] max_def min_def
    by (auto split: if_splits)
  then show ?thesis
    unfolding sint_sub64 word_less_def x_def y_def .
qed

lemma satsub64be_clamp:
  "satsub64be v1 v2 = max (- 128) (min 128 (uint (n2l8 v1) - uint (n2l8 v2)))"
  unfolding satsub64be_def Let_def by (rule satsub_core)

lemma satsub64be_range: "- 128 \<le> satsub64be v1 v2 \<and> satsub64be v1 v2 \<le> 128"
  by (simp add: satsub64be_clamp)

text \<open>
  C5. For all 8-byte big-endian inputs \<open>a\<close> and \<open>b\<close>, \<^verbatim>\<open>satsub64be\<close> returns the signed
  difference \<open>a - b\<close> of the two unsigned values when it lies within \<open>[-128, 128]\<close>,
  exactly 128 when the difference exceeds 128 or the 64-bit subtraction wraps around
  with \<open>a > b\<close>, and exactly -128 when the difference is below -128 or the subtraction
  wraps around with \<open>b > a\<close>.
\<close>

theorem satsub64be_saturating:
  "(\<bar>uint (n2l8 a) - uint (n2l8 b)\<bar> \<le> 128 \<longrightarrow> satsub64be a b = uint (n2l8 a) - uint (n2l8 b))
   \<and> (uint (n2l8 a) - uint (n2l8 b) > 128 \<longrightarrow> satsub64be a b = 128)
   \<and> (uint (n2l8 a) - uint (n2l8 b) < - 128 \<longrightarrow> satsub64be a b = - 128)
   \<and> (n2l8 a > n2l8 b \<and> sint (n2l8 a - n2l8 b) < 0 \<longrightarrow> satsub64be a b = 128)
   \<and> (n2l8 b > n2l8 a \<and> sint (n2l8 a - n2l8 b) > 0 \<longrightarrow> satsub64be a b = - 128)"
proof -
  have c: "n2l8 a > n2l8 b \<and> sint (n2l8 a - n2l8 b) < 0 \<longrightarrow> satsub64be a b = 128"
    by (simp add: satsub64be_def Let_def)
  have d: "n2l8 b > n2l8 a \<and> sint (n2l8 a - n2l8 b) > 0 \<longrightarrow> satsub64be a b = - 128"
    by (auto simp add: satsub64be_def Let_def)
  show ?thesis using c d by (simp add: satsub64be_clamp)
qed

lemma n2l8_small [simp]:
  "n2l8 (SeqNum 0 0 0 0 0 0 0 c) = ucast c"
  by simp

theorem satsub64be_saturating_witness:
  "satsub64be (SeqNum 0 0 0 0 0 0 0 7) (SeqNum 0 0 0 0 0 0 0 5) = 2
   \<and> satsub64be (SeqNum 0 0 0 0 0 0 0 200) (SeqNum 0 0 0 0 0 0 0 5) = 128
   \<and> satsub64be (SeqNum 0 0 0 0 0 0 0 5) (SeqNum 0 0 0 0 0 0 0 200) = - 128
   \<and> satsub64be (SeqNum 255 0 0 0 0 0 0 0) (SeqNum 0 0 0 0 0 0 0 0) = 128
   \<and> satsub64be (SeqNum 0 0 0 0 0 0 0 0) (SeqNum 255 0 0 0 0 0 0 0) = - 128"
  using satsub64be_saturating [of "SeqNum 0 0 0 0 0 0 0 7" "SeqNum 0 0 0 0 0 0 0 5"]
    satsub64be_saturating [of "SeqNum 0 0 0 0 0 0 0 200" "SeqNum 0 0 0 0 0 0 0 5"]
    satsub64be_saturating [of "SeqNum 0 0 0 0 0 0 0 5" "SeqNum 0 0 0 0 0 0 0 200"]
    satsub64be_saturating [of "SeqNum 255 0 0 0 0 0 0 0" "SeqNum 0 0 0 0 0 0 0 0"]
    satsub64be_saturating [of "SeqNum 0 0 0 0 0 0 0 0" "SeqNum 255 0 0 0 0 0 0 0"]
  by simp

subsection \<open>Replay window\<close>

lemma to_unsigned_small: "0 \<le> i \<Longrightarrow> i \<le> 128 \<Longrightarrow> to_unsigned i = nat i"
  by (simp add: to_unsigned_def)

lemma replay_check_fst:
  "fst (dtls_record_replay_check rl bp) =
     (let cmp = satsub64be (sequence rl) (max_seq_num (get_bm rl bp)) in
      if cmp > 0 then 1
      else if to_unsigned (- cmp) \<ge> map_width then 0
      else if bit (map_bits (get_bm rl bp)) (to_unsigned (- cmp)) then 0
      else 1)"
  unfolding dtls_record_replay_check_def Let_def bit_iff_and_push_bit_not_eq_0
  by simp

text \<open>
  C4. For every window state and every sequence number the replay check classifies the
  sequence number, with \<open>d = satsub64be seq max_seq_num\<close>: fresh (1) if \<open>d > 0\<close>; stale
  (0) if \<open>-d \<ge> 64\<close>; duplicate (0) if bit \<open>-d\<close> of the bitmap is set; fresh (1)
  otherwise. In particular a sequence number at least 64 below \<open>max_seq_num\<close> is
  rejected and one above \<open>max_seq_num\<close> is accepted.
\<close>

theorem dtls_record_replay_check_classifies:
  "fst (dtls_record_replay_check rl bp) =
     (let d = satsub64be (sequence rl) (max_seq_num (get_bm rl bp)) in
      if d > 0 then 1
      else if - d \<ge> 64 then 0
      else if bit (map_bits (get_bm rl bp)) (nat (- d)) then 0
      else 1)
   \<and> (uint (n2l8 (max_seq_num (get_bm rl bp))) - uint (n2l8 (sequence rl)) \<ge> 64
        \<longrightarrow> fst (dtls_record_replay_check rl bp) = 0)
   \<and> (n2l8 (sequence rl) > n2l8 (max_seq_num (get_bm rl bp))
        \<longrightarrow> fst (dtls_record_replay_check rl bp) = 1)"
proof -
  define d where "d = satsub64be (sequence rl) (max_seq_num (get_bm rl bp))"
  have r: "- 128 \<le> d" "d \<le> 128" using satsub64be_range by (simp_all add: d_def)
  have u: "d \<le> 0 \<Longrightarrow> to_unsigned (- d) = nat (- d)"
    using r by (simp add: to_unsigned_small)
  have main: "fst (dtls_record_replay_check rl bp) =
     (if d > 0 then 1
      else if - d \<ge> 64 then 0
      else if bit (map_bits (get_bm rl bp)) (nat (- d)) then 0
      else 1)"
  proof (cases "d > 0")
    case True
    then show ?thesis by (simp add: replay_check_fst Let_def d_def [symmetric])
  next
    case False
    then have "to_unsigned (- d) = nat (- d)" using u by simp
    moreover have "(64 \<le> nat (- d)) = (64 \<le> - d)" by linarith
    ultimately show ?thesis using False
      by (simp add: replay_check_fst Let_def d_def [symmetric] map_width_def)
  qed
  have stale: "uint (n2l8 (max_seq_num (get_bm rl bp))) - uint (n2l8 (sequence rl)) \<ge> 64
        \<Longrightarrow> - d \<ge> 64 \<and> \<not> d > 0"
    unfolding d_def satsub64be_clamp max_def min_def by (simp split: if_splits)
  have fresh: "n2l8 (sequence rl) > n2l8 (max_seq_num (get_bm rl bp)) \<Longrightarrow> d > 0"
    unfolding d_def satsub64be_clamp max_def min_def word_less_def by (simp split: if_splits)
  show ?thesis
    using main stale fresh unfolding d_def [symmetric] Let_def by auto
qed

theorem dtls_record_replay_check_classifies_witness:
  "fst (dtls_record_replay_check
          (ex_layer\<lparr>sequence := SeqNum 0 0 0 0 0 0 0 9\<rparr>) CurrentBitmap) = 1
   \<and> fst (dtls_record_replay_check
          (ex_layer\<lparr>bitmap := \<lparr>map_bits = 1, max_seq_num = SeqNum 0 0 0 0 0 0 0 100\<rparr>,
                     sequence := SeqNum 0 0 0 0 0 0 0 9\<rparr>) CurrentBitmap) = 0"
  using dtls_record_replay_check_classifies
          [of "ex_layer\<lparr>sequence := SeqNum 0 0 0 0 0 0 0 9\<rparr>" CurrentBitmap]
        dtls_record_replay_check_classifies
          [of "ex_layer\<lparr>bitmap := \<lparr>map_bits = 1, max_seq_num = SeqNum 0 0 0 0 0 0 0 100\<rparr>,
                     sequence := SeqNum 0 0 0 0 0 0 0 9\<rparr>" CurrentBitmap]
  by (simp add: ex_layer_def get_bm_def seq_num_zero_def word_less_def)

subsection \<open>Epoch router\<close>

lemma uint_next_epoch:
  fixes c :: "16 word"
  shows "uint (ucast c + 1 :: 64 word) = uint c + 1"
proof -
  have b: "0 \<le> uint c" "uint c < 2 ^ 16" using uint_bounded [of c] by simp_all
  have u: "uint (ucast c :: 64 word) = uint c"
    by (simp add: uint_up_ucast is_up)
  have "uint (ucast c + 1 :: 64 word) = (uint c + 1) mod 2 ^ 64"
    using u by (simp add: uint_word_ariths)
  also have "\<dots> = uint c + 1"
    using b by (intro mod_pos_pos_trivial) simp_all
  finally show ?thesis .
qed

lemma next_epoch_eq:
  fixes e :: "64 word" and c :: "16 word"
  shows "(e = ucast c + 1) = (uint e = uint c + 1)"
  by (metis uint_next_epoch word_uint_eq_iff)

lemma dtls_get_bitmap_int:
  "dtls_get_bitmap rl rr =
     (if uint (rr_epoch rr) = uint (epoch rl) then (Some CurrentBitmap, False)
      else if uint (rr_epoch rr) = uint (epoch rl) + 1
              \<and> pq_epoch (unprocessed_rcds rl) \<noteq> epoch rl
              \<and> (rr_type rr = SSL3_RT_HANDSHAKE \<or> rr_type rr = SSL3_RT_ALERT)
           then (Some NextBitmap, True)
      else (None, False))"
  by (simp add: dtls_get_bitmap_def next_epoch_eq word_uint_eq_iff [of "pq_epoch (unprocessed_rcds rl)"])

text \<open>
  C1 (as amended). For every record with epoch \<open>e\<close> and type \<open>t\<close>, the epoch router
  returns the next-epoch window with \<^verbatim>\<open>is_next_epoch\<close> set if and only if \<open>e\<close> equals the
  current epoch plus one, the epoch recorded in the \<open>unprocessed\<close> queue differs from
  the current epoch, and \<open>t\<close> is handshake or alert; it returns the current window
  exactly for the records of the current epoch, and no window for all others.
\<close>

theorem dtls_get_bitmap_routes:
  "(dtls_get_bitmap rl rr = (Some NextBitmap, True))
     = (uint (rr_epoch rr) = uint (epoch rl) + 1
        \<and> pq_epoch (unprocessed_rcds rl) \<noteq> epoch rl
        \<and> (rr_type rr = SSL3_RT_HANDSHAKE \<or> rr_type rr = SSL3_RT_ALERT))
   \<and> (dtls_get_bitmap rl rr = (Some CurrentBitmap, False))
     = (uint (rr_epoch rr) = uint (epoch rl))
   \<and> (dtls_get_bitmap rl rr = (None, False))
     = (uint (rr_epoch rr) \<noteq> uint (epoch rl)
        \<and> \<not> (uint (rr_epoch rr) = uint (epoch rl) + 1
               \<and> pq_epoch (unprocessed_rcds rl) \<noteq> epoch rl
               \<and> (rr_type rr = SSL3_RT_HANDSHAKE \<or> rr_type rr = SSL3_RT_ALERT)))"
  unfolding dtls_get_bitmap_int by auto

text \<open>
  The claim as first stated asks for the queue's epoch to equal the current epoch. On
  the instance (current epoch 3, queue epoch 4) a handshake record of epoch 4 is routed
  to the next-epoch window although the two epochs differ.
\<close>

theorem dtls_get_bitmap_claim_counterexample:
  "\<not> ((dtls_get_bitmap ex_layer (SSL3_RECORD_zero\<lparr>rr_epoch := 4, rr_type := 22\<rparr>)
          = (Some NextBitmap, True))
       = (uint (rr_epoch (SSL3_RECORD_zero\<lparr>rr_epoch := 4, rr_type := 22\<rparr>))
            = uint (epoch ex_layer) + 1
          \<and> pq_epoch (unprocessed_rcds ex_layer) = epoch ex_layer
          \<and> (rr_type (SSL3_RECORD_zero\<lparr>rr_epoch := 4, rr_type := 22\<rparr>) = SSL3_RT_HANDSHAKE
               \<or> rr_type (SSL3_RECORD_zero\<lparr>rr_epoch := 4, rr_type := 22\<rparr>) = SSL3_RT_ALERT)))"
  by (simp add: dtls_get_bitmap_def ex_layer_def SSL3_RECORD_zero_def SSL3_RT_HANDSHAKE_def)

text \<open>
  A layer that \<^verbatim>\<open>dtls_new_record_layer\<close> hands out has the queue's epoch one above its
  own, so the router's test on the queue's epoch holds for it.
\<close>

lemma dtls_new_record_layer_opens_gate:
  assumes "dtls_new_record_layer env base q1 q2 scs vers e = (r, Some rl)"
  shows "epoch rl = e \<and> pq_epoch (unprocessed_rcds rl) = e + 1
         \<and> pq_epoch (unprocessed_rcds rl) \<noteq> epoch rl \<and> in_init rl"
  using assms
  by (auto simp add: dtls_new_record_layer_def Let_def split: prod.splits if_splits)

text \<open>
  C10. When the current epoch is 65535, the router never selects the next-epoch window
  for an inbound record, whose epoch is read from two header bytes: the successor
  epoch is 65536 in \<^verbatim>\<open>int\<close> arithmetic and does not wrap to 0, so a record of epoch 0
  gets no window.
\<close>

theorem dtls_get_bitmap_max_epoch:
  assumes "epoch rl = 65535"
  shows "dtls_get_bitmap rl (rr\<lparr>rr_epoch := ucast (n2s c0 c1)\<rparr>) =
           (if n2s c0 c1 = 65535 then (Some CurrentBitmap, False) else (None, False))"
proof -
  have b: "uint (n2s c0 c1) < 2 ^ 16" using uint_bounded [of "n2s c0 c1"] by simp
  have u: "uint (ucast (n2s c0 c1) :: 64 word) = uint (n2s c0 c1)"
    by (simp add: uint_up_ucast is_up)
  have e: "uint (epoch rl) = 65535" using assms by simp
  have "(n2s c0 c1 = 65535) = (uint (n2s c0 c1) = 65535)"
    by (metis e assms word_uint_eq_iff)
  then show ?thesis
    unfolding dtls_get_bitmap_int using b e by (simp add: u)
qed

theorem dtls_get_bitmap_max_epoch_witness:
  "dtls_get_bitmap (ex_layer\<lparr>epoch := 65535\<rparr>)
     (SSL3_RECORD_zero\<lparr>rr_type := 22, rr_epoch := ucast (n2s 0 0)\<rparr>) = (None, False)"
  using dtls_get_bitmap_max_epoch [of "ex_layer\<lparr>epoch := 65535\<rparr>" 0 0
          "SSL3_RECORD_zero\<lparr>rr_type := 22\<rparr>"]
  by (simp add: n2s_def)

subsection \<open>Record processing and the replay window\<close>

lemma windows_simps [simp]:
  "windows (rl\<lparr>rrec := a\<rparr>) = windows rl"
  "windows (rl\<lparr>packet_length := b\<rparr>) = windows rl"
  "windows (rl\<lparr>alert := c\<rparr>) = windows rl"
  "windows (rl\<lparr>fatal_reason := d\<rparr>) = windows rl"
  "windows (rl\<lparr>ext := e\<rparr>) = windows rl"
  "windows (RLAYERfatal rl al r) = windows rl"
  by (simp_all add: windows_def RLAYERfatal_def)

lemma sequence_simps [simp]:
  "sequence (RLAYERfatal rl al r) = sequence rl"
  by (simp add: RLAYERfatal_def)

lemma bitmap_update_windows_cong:
  assumes "sequence a = sequence b" and "windows a = windows b"
  shows "windows (dtls_record_bitmap_update a bp) = windows (dtls_record_bitmap_update b bp)"
  using assms
  by (cases bp) (simp_all add: dtls_record_bitmap_update_def windows_def get_bm_def set_bm_def Let_def)

lemma windows_apply_cipher [simp]:
  "windows (apply_cipher rl cr) = windows rl" "sequence (apply_cipher rl cr) = sequence rl"
  by (simp_all add: apply_cipher_def)

lemma uncompress_window:
  "(case dtls_process_record_uncompress env rl of
      Inl rlf \<Rightarrow> windows rlf = windows rl
    | Inr rl2 \<Rightarrow> windows rl2 = windows rl \<and> sequence rl2 = sequence rl)"
  unfolding dtls_process_record_uncompress_def Let_def
  by (simp split: prod.split)

lemma commit_window:
  "(case dtls_process_record_commit rl bp of
      (r, rl') \<Rightarrow>
        (r = 0 \<or> r = 1)
        \<and> (r = 0 \<longrightarrow> windows rl' = windows rl)
        \<and> (r = 1 \<longrightarrow> windows rl' = windows (dtls_record_bitmap_update rl bp)))"
  unfolding dtls_process_record_commit_def
  by (auto intro!: bitmap_update_windows_cong)

lemma decrypt_window:
  "(case dtls_process_record_decrypt env rl m bp of
      (r, rl') \<Rightarrow>
        (r = 0 \<or> r = 1)
        \<and> (r = 0 \<longrightarrow> windows rl' = windows rl)
        \<and> (r = 1 \<longrightarrow> windows rl' = windows (dtls_record_bitmap_update rl bp)
                      \<and> enc_err (cipher env rl m) \<noteq> 0))"
proof -
  define rl1 where "rl1 = apply_cipher rl (cipher env rl m)"
  have w1: "windows rl1 = windows rl" "sequence rl1 = sequence rl"
    by (simp_all add: rl1_def)
  have u: "(case dtls_process_record_uncompress env rl1 of
      Inl rlf \<Rightarrow> windows rlf = windows rl
    | Inr rl2 \<Rightarrow> windows rl2 = windows rl \<and> sequence rl2 = sequence rl)"
    using uncompress_window [where env = env and rl = rl1] w1 by (simp split: sum.splits)
  have k: "\<And>rl2. windows rl2 = windows rl \<Longrightarrow> sequence rl2 = sequence rl \<Longrightarrow>
     (case dtls_process_record_commit rl2 bp of
      (r, rl') \<Rightarrow>
        (r = 0 \<or> r = 1)
        \<and> (r = 0 \<longrightarrow> windows rl' = windows rl)
        \<and> (r = 1 \<longrightarrow> windows rl' = windows (dtls_record_bitmap_update rl bp)))"
    subgoal for rl2
      using commit_window [where rl = rl2 and bp = bp] bitmap_update_windows_cong [where a = rl2 and b = rl and bp = bp]
      by (simp split: prod.splits)
    done
  show ?thesis
  proof (cases "dtls_process_record_uncompress env rl1")
    case (Inl rlf)
    with u have "windows rlf = windows rl" by simp
    then show ?thesis
      unfolding dtls_process_record_decrypt_def Let_def rl1_def [symmetric]
      using Inl w1 by simp
  next
    case (Inr rl2)
    with u have f: "windows rl2 = windows rl" "sequence rl2 = sequence rl" by simp_all
    obtain r rl' where c: "dtls_process_record_commit rl2 bp = (r, rl')" by force
    have "(r = 0 \<or> r = 1) \<and> (r = 0 \<longrightarrow> windows rl' = windows rl)
        \<and> (r = 1 \<longrightarrow> windows rl' = windows (dtls_record_bitmap_update rl bp))"
      using k [OF f] c by simp
    then show ?thesis
      unfolding dtls_process_record_decrypt_def Let_def rl1_def [symmetric]
      using Inr w1 c by simp
  qed
qed

lemma process_window:
  "(case dtls_process_record env rl bp of
      (r, rl') \<Rightarrow>
        (r = 0 \<or> r = 1)
        \<and> (r = 0 \<longrightarrow> windows rl' = windows rl)
        \<and> (r = 1 \<longrightarrow> windows rl' = windows (dtls_record_bitmap_update rl bp)))"
proof -
  have d: "\<And>x m. sequence x = sequence rl \<Longrightarrow> windows x = windows rl \<Longrightarrow>
    (case dtls_process_record_decrypt env x m bp of
      (r, rl') \<Rightarrow>
        (r = 0 \<or> r = 1)
        \<and> (r = 0 \<longrightarrow> windows rl' = windows rl)
        \<and> (r = 1 \<longrightarrow> windows rl' = windows (dtls_record_bitmap_update rl bp)))"
    subgoal for x m
      using decrypt_window [where env = env and rl = x and m = m and bp = bp]
        bitmap_update_windows_cong [where a = x and b = rl and bp = bp]
      by (simp split: prod.splits)
    done
  show ?thesis
    unfolding dtls_process_record_def Let_def
    by (simp add: d split: option.split)
qed


lemma process_record_mte:
  assumes "rr_length (rrec rl) \<le> SSL3_RT_MAX_ENCRYPTED_LENGTH env"
    and "\<forall>n. md_ctx rl = Some (Some n) \<longrightarrow> 0 \<le> n \<and> n \<le> EVP_MAX_MD_SIZE env"
    and "\<not> (use_etm rl \<and> md_ctx rl \<noteq> None)"
  shows "dtls_process_record env rl bp =
           dtls_process_record_decrypt env (record_in_place rl) (mac_size_of rl) bp"
  using assms unfolding dtls_process_record_def Let_def record_in_place_def mac_size_of_def
  by (auto simp add: EVP_MD_CTX_get0_md_def split: option.splits)

lemma process_record_etm:
  assumes "rr_length (rrec rl) \<le> SSL3_RT_MAX_ENCRYPTED_LENGTH env"
    and "\<forall>n. md_ctx rl = Some (Some n) \<longrightarrow> 0 \<le> n \<and> n \<le> EVP_MAX_MD_SIZE env"
    and "use_etm rl" and "md_ctx rl \<noteq> None"
  shows "dtls_process_record env rl bp =
           (if rr_length (rrec rl) < mac_size_of rl
            then (0, RLAYERfatal (record_in_place rl) SSL_AD_DECODE_ERROR SSL_R_LENGTH_TOO_SHORT)
            else if etm_mac_fails env (etm_stripped rl) (mac_size_of rl)
            then (0, RLAYERfatal (etm_stripped rl) SSL_AD_BAD_RECORD_MAC
                       SSL_R_DECRYPTION_FAILED_OR_BAD_RECORD_MAC)
            else dtls_process_record_decrypt env (etm_stripped rl) 0 bp)"
  using assms unfolding dtls_process_record_def Let_def record_in_place_def mac_size_of_def
    etm_stripped_def
  by (auto simp add: EVP_MD_CTX_get0_md_def split: option.splits)


lemma decrypt_cipher_fail:
  assumes "enc_err (cipher env x m) = 0"
  shows "dtls_process_record_decrypt env x m bp =
           (0, if cr_alert (cipher env x m) \<noteq> SSL_AD_NO_ALERT
               then apply_cipher x (cipher env x m)
               else dump_record (apply_cipher x (cipher env x m)))"
  using assms unfolding dtls_process_record_decrypt_def Let_def dump_record_def
  by (simp add: apply_cipher_def)

lemma decrypt_mte_mac_fail:
  assumes "enc_err (cipher env x m) \<noteq> 0"
    and "\<not> use_etm x" and "enc_ctx x" and "EVP_MD_CTX_get0_md (md_ctx x) \<noteq> None"
    and "mte_mac_fails env (apply_cipher x (cipher env x m)) (cr_macbuf (cipher env x m)) m"
  shows "dtls_process_record_decrypt env x m bp =
           (0, dump_record (apply_cipher x (cipher env x m)))"
proof -
  have f: "use_etm (apply_cipher x (cipher env x m)) = use_etm x"
    "enc_ctx (apply_cipher x (cipher env x m)) = enc_ctx x"
    "md_ctx (apply_cipher x (cipher env x m)) = md_ctx x"
    by (simp_all add: apply_cipher_def)
  show ?thesis
    using assms unfolding dtls_process_record_decrypt_def Let_def dump_record_def f
    by simp
qed

lemma decrypt_success:
  assumes "fst (dtls_process_record_decrypt env x m bp) = 1"
  shows "enc_err (cipher env x m) \<noteq> 0
     \<and> (\<not> use_etm x \<and> enc_ctx x \<and> EVP_MD_CTX_get0_md (md_ctx x) \<noteq> None
          \<longrightarrow> \<not> mte_mac_fails env (apply_cipher x (cipher env x m))
                  (cr_macbuf (cipher env x m)) m)"
proof -
  have a: "enc_err (cipher env x m) \<noteq> 0"
    using assms decrypt_cipher_fail [where env = env and x = x and m = m and bp = bp] by auto
  have b: "\<not> (\<not> use_etm x \<and> enc_ctx x \<and> EVP_MD_CTX_get0_md (md_ctx x) \<noteq> None
      \<and> mte_mac_fails env (apply_cipher x (cipher env x m)) (cr_macbuf (cipher env x m)) m)"
    using assms a decrypt_mte_mac_fail [where env = env and x = x and m = m and bp = bp] by auto
  show ?thesis using a b by blast
qed

lemma process_record_too_long:
  "rr_length (rrec rl) > SSL3_RT_MAX_ENCRYPTED_LENGTH env
   \<Longrightarrow> fst (dtls_process_record env rl bp) = 0"
  unfolding dtls_process_record_def Let_def by simp

lemma process_record_bad_md:
  "md_ctx rl = Some (Some n) \<Longrightarrow> \<not> (0 \<le> n \<and> n \<le> EVP_MAX_MD_SIZE env)
   \<Longrightarrow> fst (dtls_process_record env rl bp) = 0"
  unfolding dtls_process_record_def Let_def by (simp add: EVP_MD_CTX_get0_md_def)

lemma process_success_pre:
  assumes "fst (dtls_process_record env rl bp) = 1"
  shows "rr_length (rrec rl) \<le> SSL3_RT_MAX_ENCRYPTED_LENGTH env
    \<and> (\<forall>n. md_ctx rl = Some (Some n) \<longrightarrow> 0 \<le> n \<and> n \<le> EVP_MAX_MD_SIZE env)"
  using assms process_record_too_long [where env = env and rl = rl and bp = bp] process_record_bad_md [where env = env and rl = rl and bp = bp]
  by (metis not_le_imp_less zero_neq_one)

text \<open>
  C3. The replay window is updated only after the record has passed decryption and MAC
  verification. \<^verbatim>\<open>dtls_process_record\<close> returns 0 or 1; whenever it returns 0 (length
  overflow, bad digest size, short record or MAC mismatch under encrypt-then-MAC,
  decryption failure, MAC mismatch under MAC-then-encrypt, decompression failure,
  fragment overflow) both windows are as before, so a forged or undecryptable packet
  never advances the window; when it returns 1 the windows are those of
  \<^verbatim>\<open>dtls_record_bitmap_update\<close>, the cipher has succeeded and the MAC that applies has
  matched.
\<close>

theorem replay_window_updated_only_after_verification:
  "(fst (dtls_process_record env rl bp) = 0 \<or> fst (dtls_process_record env rl bp) = 1)
   \<and> (fst (dtls_process_record env rl bp) = 0
        \<longrightarrow> windows (snd (dtls_process_record env rl bp)) = windows rl)
   \<and> (fst (dtls_process_record env rl bp) = 1
        \<longrightarrow> windows (snd (dtls_process_record env rl bp))
              = windows (dtls_record_bitmap_update rl bp))
   \<and> (fst (dtls_process_record env rl bp) = 1 \<and> use_etm rl \<and> md_ctx rl \<noteq> None
        \<longrightarrow> \<not> etm_mac_fails env (etm_stripped rl) (mac_size_of rl)
            \<and> enc_err (cipher env (etm_stripped rl) 0) \<noteq> 0)
   \<and> (fst (dtls_process_record env rl bp) = 1 \<and> \<not> (use_etm rl \<and> md_ctx rl \<noteq> None)
        \<longrightarrow> enc_err (cipher env (record_in_place rl) (mac_size_of rl)) \<noteq> 0
            \<and> (\<not> use_etm rl \<and> enc_ctx rl \<and> EVP_MD_CTX_get0_md (md_ctx rl) \<noteq> None
                 \<longrightarrow> \<not> mte_mac_fails env
                        (apply_cipher (record_in_place rl)
                           (cipher env (record_in_place rl) (mac_size_of rl)))
                        (cr_macbuf (cipher env (record_in_place rl) (mac_size_of rl)))
                        (mac_size_of rl)))"
proof -
  obtain r rl' where R: "dtls_process_record env rl bp = (r, rl')" by force
  have w: "(r = 0 \<or> r = 1) \<and> (r = 0 \<longrightarrow> windows rl' = windows rl)
        \<and> (r = 1 \<longrightarrow> windows rl' = windows (dtls_record_bitmap_update rl bp))"
    using process_window [where env = env and rl = rl and bp = bp] R by simp
  have etm: "\<not> etm_mac_fails env (etm_stripped rl) (mac_size_of rl)
            \<and> enc_err (cipher env (etm_stripped rl) 0) \<noteq> 0"
    if "r = 1" "use_etm rl" "md_ctx rl \<noteq> None"
  proof -
    have pre: "rr_length (rrec rl) \<le> SSL3_RT_MAX_ENCRYPTED_LENGTH env"
      "\<forall>n. md_ctx rl = Some (Some n) \<longrightarrow> 0 \<le> n \<and> n \<le> EVP_MAX_MD_SIZE env"
      using process_success_pre [where env = env and rl = rl and bp = bp] R that by simp_all
    have e: "(r, rl') = (if rr_length (rrec rl) < mac_size_of rl
            then (0, RLAYERfatal (record_in_place rl) SSL_AD_DECODE_ERROR SSL_R_LENGTH_TOO_SHORT)
            else if etm_mac_fails env (etm_stripped rl) (mac_size_of rl)
            then (0, RLAYERfatal (etm_stripped rl) SSL_AD_BAD_RECORD_MAC
                       SSL_R_DECRYPTION_FAILED_OR_BAD_RECORD_MAC)
            else dtls_process_record_decrypt env (etm_stripped rl) 0 bp)"
      using process_record_etm [OF pre that(2,3), where bp = bp] R by simp
    have n: "\<not> etm_mac_fails env (etm_stripped rl) (mac_size_of rl)"
      using e that(1) by (auto split: if_splits)
    have "fst (dtls_process_record_decrypt env (etm_stripped rl) 0 bp) = 1"
      using e that(1) by (auto split: if_splits dest: arg_cong [where f = fst])
    then show ?thesis using n decrypt_success by blast
  qed
  have mte: "enc_err (cipher env (record_in_place rl) (mac_size_of rl)) \<noteq> 0
            \<and> (\<not> use_etm rl \<and> enc_ctx rl \<and> EVP_MD_CTX_get0_md (md_ctx rl) \<noteq> None
                 \<longrightarrow> \<not> mte_mac_fails env
                        (apply_cipher (record_in_place rl)
                           (cipher env (record_in_place rl) (mac_size_of rl)))
                        (cr_macbuf (cipher env (record_in_place rl) (mac_size_of rl)))
                        (mac_size_of rl))"
    if "r = 1" "\<not> (use_etm rl \<and> md_ctx rl \<noteq> None)"
  proof -
    have pre: "rr_length (rrec rl) \<le> SSL3_RT_MAX_ENCRYPTED_LENGTH env"
      "\<forall>n. md_ctx rl = Some (Some n) \<longrightarrow> 0 \<le> n \<and> n \<le> EVP_MAX_MD_SIZE env"
      using process_success_pre [where env = env and rl = rl and bp = bp] R that by simp_all
    have "fst (dtls_process_record_decrypt env (record_in_place rl) (mac_size_of rl) bp) = 1"
      using process_record_mte [OF pre that(2), where bp = bp] R that(1)
      by (metis fst_conv)
    from decrypt_success [OF this] show ?thesis
      by (simp add: record_in_place_def)
  qed
  show ?thesis using w etm mte unfolding R by simp
qed

lemmas ex_defs = ex_env_def ex_layer_def ex_read_n_def SSL3_RECORD_zero_def seq_num_zero_def
  SSL3_BUFFER_zero_def
lemmas process_defs = dtls_process_record_def dtls_process_record_decrypt_def
  dtls_process_record_uncompress_def dtls_process_record_commit_def apply_cipher_def
  etm_mac_fails_def mte_mac_fails_def EVP_MD_CTX_get0_md_def CRYPTO_memcmp_differs_def
  RLAYERfatal_def DTLS1_RT_HEADER_LENGTH_def mac_size_of_def record_in_place_def
  etm_stripped_def dump_record_def Let_def
lemmas window_defs = dtls_record_bitmap_update_def dtls_record_replay_check_def get_bm_def
  set_bm_def satsub64be_def to_unsigned_def map_width_def windows_def

theorem replay_window_updated_only_after_verification_witness:
  "fst (dtls_process_record ex_env
          (ex_layer\<lparr>rrec := SSL3_RECORD_zero\<lparr>rr_length := 5, rr_type := 23\<rparr>,
                     sequence := SeqNum 0 0 0 0 0 0 0 1\<rparr>) CurrentBitmap) = 1
   \<and> bitmap (snd (dtls_process_record ex_env
          (ex_layer\<lparr>rrec := SSL3_RECORD_zero\<lparr>rr_length := 5, rr_type := 23\<rparr>,
                     sequence := SeqNum 0 0 0 0 0 0 0 1\<rparr>) CurrentBitmap))
       = \<lparr>map_bits = 1, max_seq_num = SeqNum 0 0 0 0 0 0 0 1\<rparr>
   \<and> fst (dtls_process_record (ex_env\<lparr>cipher := ex_cipher_fails\<rparr>)
          (ex_layer\<lparr>rrec := SSL3_RECORD_zero\<lparr>rr_length := 5, rr_type := 23\<rparr>,
                     sequence := SeqNum 0 0 0 0 0 0 0 1\<rparr>) CurrentBitmap) = 0
   \<and> windows (snd (dtls_process_record (ex_env\<lparr>cipher := ex_cipher_fails\<rparr>)
          (ex_layer\<lparr>rrec := SSL3_RECORD_zero\<lparr>rr_length := 5, rr_type := 23\<rparr>,
                     sequence := SeqNum 0 0 0 0 0 0 0 1\<rparr>) CurrentBitmap))
       = (\<lparr>map_bits = 0, max_seq_num = seq_num_zero\<rparr>,
          \<lparr>map_bits = 0, max_seq_num = seq_num_zero\<rparr>)"
  using replay_window_updated_only_after_verification
          [of ex_env "ex_layer\<lparr>rrec := SSL3_RECORD_zero\<lparr>rr_length := 5, rr_type := 23\<rparr>,
                     sequence := SeqNum 0 0 0 0 0 0 0 1\<rparr>" CurrentBitmap]
        replay_window_updated_only_after_verification
          [of "ex_env\<lparr>cipher := ex_cipher_fails\<rparr>"
              "ex_layer\<lparr>rrec := SSL3_RECORD_zero\<lparr>rr_length := 5, rr_type := 23\<rparr>,
                     sequence := SeqNum 0 0 0 0 0 0 0 1\<rparr>" CurrentBitmap]
  by (simp add: ex_defs ex_cipher_fails_def process_defs window_defs)

subsection \<open>MAC failures\<close>

lemma deliver_process:
  "rr_length (rrec rl) \<noteq> 0 \<Longrightarrow>
   dtls_get_more_records_deliver env rl bp False =
     (case dtls_process_record env rl bp of
        (r, rl') \<Rightarrow>
          if r = 0 then
            (if alert rl' \<noteq> SSL_AD_NO_ALERT then Return (OSSL_RECORD_RETURN_FATAL env) rl'
             else Again (dump_record rl'))
          else Return (OSSL_RECORD_RETURN_SUCCESS env) (rl'\<lparr>num_recs := 1\<rparr>))"
  by (simp add: dtls_get_more_records_deliver_def)

lemma dump_record_idem: "dump_record (dump_record rl) = dump_record rl"
  by (simp add: dump_record_def)

text \<open>
  C6. A MAC failure on an inbound record is handled by mode. For a record that is
  processed (not empty, not over the encrypted length limit, digest size in range):
  under encrypt-then-MAC with a digest context, a record shorter than the MAC raises
  the fatal alert \<open>decode_error\<close> and a MAC mismatch raises the fatal alert
  \<open>bad_record_mac\<close>, and the read function returns the fatal code; without
  encrypt-then-MAC, a decryption failure (the cipher returns 0 and raises no alert) or
  a MAC mismatch makes the pass drop the record, with no alert, and jump back to
  \<^verbatim>\<open>again\<close> for the next record.
\<close>

theorem mac_failure_fatal_in_etm_silent_in_mte:
  assumes "rr_length (rrec rl) \<noteq> 0"
    and "rr_length (rrec rl) \<le> SSL3_RT_MAX_ENCRYPTED_LENGTH env"
    and "\<forall>n. md_ctx rl = Some (Some n) \<longrightarrow> 0 \<le> n \<and> n \<le> EVP_MAX_MD_SIZE env"
  shows
    "(use_etm rl \<and> md_ctx rl \<noteq> None \<and> rr_length (rrec rl) < mac_size_of rl
        \<longrightarrow> dtls_get_more_records_deliver env rl bp False
              = Return (OSSL_RECORD_RETURN_FATAL env)
                  (RLAYERfatal (record_in_place rl) SSL_AD_DECODE_ERROR SSL_R_LENGTH_TOO_SHORT))
     \<and> (use_etm rl \<and> md_ctx rl \<noteq> None \<and> mac_size_of rl \<le> rr_length (rrec rl)
         \<and> etm_mac_fails env (etm_stripped rl) (mac_size_of rl)
        \<longrightarrow> dtls_get_more_records_deliver env rl bp False
              = Return (OSSL_RECORD_RETURN_FATAL env)
                  (RLAYERfatal (etm_stripped rl) SSL_AD_BAD_RECORD_MAC
                     SSL_R_DECRYPTION_FAILED_OR_BAD_RECORD_MAC))
     \<and> (\<not> use_etm rl
         \<and> enc_err (cipher env (record_in_place rl) (mac_size_of rl)) = 0
         \<and> cr_alert (cipher env (record_in_place rl) (mac_size_of rl)) = SSL_AD_NO_ALERT
        \<longrightarrow> dtls_get_more_records_deliver env rl bp False
              = Again (dump_record (apply_cipher (record_in_place rl)
                         (cipher env (record_in_place rl) (mac_size_of rl))))
            \<and> alert (dump_record (apply_cipher (record_in_place rl)
                         (cipher env (record_in_place rl) (mac_size_of rl)))) = SSL_AD_NO_ALERT)
     \<and> (\<not> use_etm rl \<and> enc_ctx rl \<and> EVP_MD_CTX_get0_md (md_ctx rl) \<noteq> None
         \<and> enc_err (cipher env (record_in_place rl) (mac_size_of rl)) \<noteq> 0
         \<and> cr_alert (cipher env (record_in_place rl) (mac_size_of rl)) = SSL_AD_NO_ALERT
         \<and> mte_mac_fails env
              (apply_cipher (record_in_place rl)
                 (cipher env (record_in_place rl) (mac_size_of rl)))
              (cr_macbuf (cipher env (record_in_place rl) (mac_size_of rl)))
              (mac_size_of rl)
        \<longrightarrow> dtls_get_more_records_deliver env rl bp False
              = Again (dump_record (apply_cipher (record_in_place rl)
                         (cipher env (record_in_place rl) (mac_size_of rl))))
            \<and> alert (dump_record (apply_cipher (record_in_place rl)
                         (cipher env (record_in_place rl) (mac_size_of rl)))) = SSL_AD_NO_ALERT)"
proof -
  define x where "x = record_in_place rl"
  define m where "m = mac_size_of rl"
  define cr where "cr = cipher env x m"
  have xf: "use_etm x = use_etm rl" "enc_ctx x = enc_ctx rl" "md_ctx x = md_ctx rl"
    by (simp_all add: x_def record_in_place_def)
  have al: "alert (dump_record (apply_cipher x cr)) = cr_alert cr"
    "alert (apply_cipher x cr) = cr_alert cr"
    by (simp_all add: dump_record_def apply_cipher_def)
  have short: "dtls_get_more_records_deliver env rl bp False
              = Return (OSSL_RECORD_RETURN_FATAL env)
                  (RLAYERfatal (record_in_place rl) SSL_AD_DECODE_ERROR SSL_R_LENGTH_TOO_SHORT)"
    if "use_etm rl" "md_ctx rl \<noteq> None" "rr_length (rrec rl) < mac_size_of rl"
    using that process_record_etm [OF assms(2,3) that(1,2), where bp = bp]
    by (simp add: deliver_process [OF assms(1)] RLAYERfatal_def)
  have mism: "dtls_get_more_records_deliver env rl bp False
              = Return (OSSL_RECORD_RETURN_FATAL env)
                  (RLAYERfatal (etm_stripped rl) SSL_AD_BAD_RECORD_MAC
                     SSL_R_DECRYPTION_FAILED_OR_BAD_RECORD_MAC)"
    if "use_etm rl" "md_ctx rl \<noteq> None" "mac_size_of rl \<le> rr_length (rrec rl)"
      "etm_mac_fails env (etm_stripped rl) (mac_size_of rl)"
    using that process_record_etm [OF assms(2,3) that(1,2), where bp = bp]
    by (simp add: deliver_process [OF assms(1)] RLAYERfatal_def)
  have mte: "dtls_process_record env rl bp = dtls_process_record_decrypt env x m bp"
    if "\<not> use_etm rl"
    using that process_record_mte [OF assms(2,3), where bp = bp] by (simp add: x_def m_def)
  have dec: "dtls_get_more_records_deliver env rl bp False = Again (dump_record (apply_cipher x cr))"
    if "\<not> use_etm rl" "enc_err cr = 0" "cr_alert cr = SSL_AD_NO_ALERT"
    using that mte decrypt_cipher_fail [where env = env and x = x and m = m and bp = bp]
    by (simp add: deliver_process [OF assms(1)] cr_def [symmetric] al dump_record_idem)
  have mac: "dtls_get_more_records_deliver env rl bp False = Again (dump_record (apply_cipher x cr))"
    if "\<not> use_etm rl" "enc_ctx rl" "EVP_MD_CTX_get0_md (md_ctx rl) \<noteq> None"
      "enc_err cr \<noteq> 0" "cr_alert cr = SSL_AD_NO_ALERT"
      "mte_mac_fails env (apply_cipher x cr) (cr_macbuf cr) m"
    using that mte decrypt_mte_mac_fail [where env = env and x = x and m = m and bp = bp]
    by (simp add: deliver_process [OF assms(1)] cr_def [symmetric] al dump_record_idem xf)
  show ?thesis
    using short mism dec mac al unfolding cr_def x_def m_def by simp
qed

theorem mac_failure_fatal_in_etm_silent_in_mte_witness:
  "dtls_get_more_records_deliver (ex_env\<lparr>mac := (\<lambda>rl sending. (0, []))\<rparr>)
      (ex_layer\<lparr>use_etm := True, md_ctx := Some (Some 32), enc_ctx := True,
                 rrec := SSL3_RECORD_zero\<lparr>rr_length := 40, rr_type := 23\<rparr>\<rparr>)
      CurrentBitmap False
     = Return (- 2)
         (RLAYERfatal
            (etm_stripped (ex_layer\<lparr>use_etm := True, md_ctx := Some (Some 32), enc_ctx := True,
                 rrec := SSL3_RECORD_zero\<lparr>rr_length := 40, rr_type := 23\<rparr>\<rparr>))
            SSL_AD_BAD_RECORD_MAC SSL_R_DECRYPTION_FAILED_OR_BAD_RECORD_MAC)
   \<and> dtls_get_more_records_deliver ex_env
      (ex_layer\<lparr>use_etm := True, md_ctx := Some (Some 32), enc_ctx := True,
                 rrec := SSL3_RECORD_zero\<lparr>rr_length := 10, rr_type := 23\<rparr>\<rparr>)
      CurrentBitmap False
     = Return (- 2)
         (RLAYERfatal
            (record_in_place (ex_layer\<lparr>use_etm := True, md_ctx := Some (Some 32),
                 enc_ctx := True,
                 rrec := SSL3_RECORD_zero\<lparr>rr_length := 10, rr_type := 23\<rparr>\<rparr>))
            SSL_AD_DECODE_ERROR SSL_R_LENGTH_TOO_SHORT)
   \<and> dtls_get_more_records_deliver (ex_env\<lparr>mac := (\<lambda>rl sending. (0, []))\<rparr>)
      (ex_layer\<lparr>md_ctx := Some (Some 32), enc_ctx := True,
                 rrec := SSL3_RECORD_zero\<lparr>rr_length := 40, rr_type := 23\<rparr>\<rparr>)
      CurrentBitmap False
     = Again (dump_record (record_in_place
                (ex_layer\<lparr>md_ctx := Some (Some 32), enc_ctx := True,
                   rrec := SSL3_RECORD_zero\<lparr>rr_length := 40, rr_type := 23\<rparr>\<rparr>)))
   \<and> dtls_get_more_records_deliver (ex_env\<lparr>cipher := ex_cipher_fails\<rparr>)
      (ex_layer\<lparr>md_ctx := Some (Some 32), enc_ctx := True,
                 rrec := SSL3_RECORD_zero\<lparr>rr_length := 40, rr_type := 23\<rparr>\<rparr>)
      CurrentBitmap False
     = Again (dump_record (record_in_place
                (ex_layer\<lparr>md_ctx := Some (Some 32), enc_ctx := True,
                   rrec := SSL3_RECORD_zero\<lparr>rr_length := 40, rr_type := 23\<rparr>\<rparr>)))"
  using mac_failure_fatal_in_etm_silent_in_mte
          [of "ex_layer\<lparr>use_etm := True, md_ctx := Some (Some 32), enc_ctx := True,
                 rrec := SSL3_RECORD_zero\<lparr>rr_length := 40, rr_type := 23\<rparr>\<rparr>"
              "ex_env\<lparr>mac := (\<lambda>rl sending. (0, []))\<rparr>" CurrentBitmap]
        mac_failure_fatal_in_etm_silent_in_mte
          [of "ex_layer\<lparr>use_etm := True, md_ctx := Some (Some 32), enc_ctx := True,
                 rrec := SSL3_RECORD_zero\<lparr>rr_length := 10, rr_type := 23\<rparr>\<rparr>"
              ex_env CurrentBitmap]
        mac_failure_fatal_in_etm_silent_in_mte
          [of "ex_layer\<lparr>md_ctx := Some (Some 32), enc_ctx := True,
                 rrec := SSL3_RECORD_zero\<lparr>rr_length := 40, rr_type := 23\<rparr>\<rparr>"
              "ex_env\<lparr>mac := (\<lambda>rl sending. (0, []))\<rparr>" CurrentBitmap]
        mac_failure_fatal_in_etm_silent_in_mte
          [of "ex_layer\<lparr>md_ctx := Some (Some 32), enc_ctx := True,
                 rrec := SSL3_RECORD_zero\<lparr>rr_length := 40, rr_type := 23\<rparr>\<rparr>"
              "ex_env\<lparr>cipher := ex_cipher_fails\<rparr>" CurrentBitmap]
  by (simp add: ex_defs ex_cipher_fails_def process_defs)

subsection \<open>The read loop\<close>

lemma loop_return:
  "dtls_get_more_records_again env rl = Return r rl'
   \<Longrightarrow> dtls_get_more_records_loop env rl = Some (Returned r rl')"
  by (subst dtls_get_more_records_loop.simps) simp

lemma loop_again:
  "dtls_get_more_records_again env rl = Again rl'
   \<Longrightarrow> dtls_get_more_records_loop env rl = dtls_get_more_records_loop env rl'"
  by (subst dtls_get_more_records_loop.simps) simp

text \<open>
  C2 (as amended). When a next-epoch record (not empty) is to be buffered while
  \<^verbatim>\<open>in_init\<close> is set: if the \<open>unprocessed\<close> queue already holds 100 items, the record
  is dropped without an alert and without touching the queue, and the pass jumps back
  to \<^verbatim>\<open>again\<close>; if the queue has room and the allocation of the record data or of the
  queue item fails, the read function returns the fatal code with the alert
  \<open>internal_error\<close>, and it returns the fatal code as well when the new read buffer
  cannot be set up.
\<close>

theorem next_epoch_record_buffering_failures:
  assumes "rr_length (rrec rl) \<noteq> 0" and "in_init rl"
    and "pq_q (unprocessed_rcds rl) = Some q"
  shows
    "(pqueue_size q \<ge> 100
        \<longrightarrow> dtls_get_more_records_deliver env rl bp True = Again (dump_record rl)
            \<and> alert (dump_record rl) = alert rl
            \<and> unprocessed_rcds (dump_record rl) = unprocessed_rcds rl)
     \<and> (pqueue_size q < 100 \<and> (\<not> OPENSSL_malloc_ok env rl \<or> \<not> pitem_new_ok env rl)
        \<longrightarrow> dtls_get_more_records_deliver env rl bp True
              = Return (OSSL_RECORD_RETURN_FATAL env)
                  (RLAYERfatal rl SSL_AD_INTERNAL_ERROR ERR_R_INTERNAL_ERROR))
     \<and> (pqueue_size q < 100 \<and> OPENSSL_malloc_ok env rl \<and> pitem_new_ok env rl
         \<and> \<not> sr_ok (tls_setup_read_buffer env
                  (rl\<lparr>packet := [], packet_length := 0, rbuf := SSL3_BUFFER_zero,
                      rrec := SSL3_RECORD_zero\<rparr>))
        \<longrightarrow> (\<exists>rl'. dtls_get_more_records_deliver env rl bp True
                      = Return (OSSL_RECORD_RETURN_FATAL env) rl'))"
  using assms
  by (simp add: dtls_get_more_records_deliver_def dtls_rlayer_buffer_record_def get_queue_def
      dump_record_def Let_def)

theorem next_epoch_record_buffering_failures_witness:
  "dtls_get_more_records_deliver ex_env
      (ex_full_layer\<lparr>rrec := SSL3_RECORD_zero\<lparr>rr_length := 1, rr_type := 22\<rparr>\<rparr>)
      NextBitmap True
     = Again (dump_record (ex_full_layer\<lparr>rrec := SSL3_RECORD_zero\<lparr>rr_length := 1, rr_type := 22\<rparr>\<rparr>))
   \<and> dtls_get_more_records_deliver (ex_env\<lparr>OPENSSL_malloc_ok := (\<lambda>rl. False)\<rparr>)
      (ex_layer\<lparr>rrec := SSL3_RECORD_zero\<lparr>rr_length := 1, rr_type := 22\<rparr>\<rparr>)
      NextBitmap True
     = Return (- 2)
         (RLAYERfatal (ex_layer\<lparr>rrec := SSL3_RECORD_zero\<lparr>rr_length := 1, rr_type := 22\<rparr>\<rparr>)
            SSL_AD_INTERNAL_ERROR ERR_R_INTERNAL_ERROR)"
  using next_epoch_record_buffering_failures
          [of "ex_full_layer\<lparr>rrec := SSL3_RECORD_zero\<lparr>rr_length := 1, rr_type := 22\<rparr>\<rparr>"
              "map (\<lambda>i. (SeqNum 0 4 0 0 0 0 0 (of_nat i), ex_rdata)) [0..<100]"
              ex_env NextBitmap]
        next_epoch_record_buffering_failures
          [of "ex_layer\<lparr>rrec := SSL3_RECORD_zero\<lparr>rr_length := 1, rr_type := 22\<rparr>\<rparr>"
              "[]" "ex_env\<lparr>OPENSSL_malloc_ok := (\<lambda>rl. False)\<rparr>" NextBitmap]
  by (simp add: ex_full_layer_def ex_layer_def ex_env_def SSL3_RECORD_zero_def pqueue_size_def)


lemmas read_defs = dtls_get_more_records_def dtls_get_more_records_again_def
  dtls_get_more_records_body_def dtls_get_more_records_deliver_def
  dtls_retrieve_rlayer_buffered_record_def dtls_copy_rlayer_record_def
  dtls_rlayer_buffer_record_def get_queue_def set_queue_q_def pqueue_size_def
  parse_header_def header_major_def header_version_def n2s_def apply_read_n_def
  dump_record_def dtls_get_bitmap_def SSL3_RT_ALERT_def SSL3_RT_HANDSHAKE_def
  DTLS1_RT_HEADER_LENGTH_def size_t_sub_def outcome_code_def outcome_alert_def Let_def

text \<open>
  The claim as first stated has the read function surface a fatal error also when the
  queue is full. On the instance with 100 queued records, \<^verbatim>\<open>dtls_get_more_records\<close>
  reads the next-epoch handshake record, drops it, finds the transport empty and
  returns 0 (retry) with no alert; the fatal code is -2.
\<close>

lemma ex_full_run:
  "\<exists>rl'. dtls_get_more_records ex_env ex_full_layer = Some (Returned 0 rl')
         \<and> alert rl' = SSL_AD_NO_ALERT"
  apply (simp add: dtls_get_more_records_def ex_full_layer_def ex_layer_def)
  apply (subst dtls_get_more_records_loop.simps)
  apply (simp add: read_defs ex_defs ex_header_def window_defs)
  apply (subst dtls_get_more_records_loop.simps)
  apply (simp add: read_defs ex_defs ex_header_def window_defs)
  done

theorem queue_full_is_not_fatal_counterexample:
  "outcome_code (dtls_get_more_records ex_env ex_full_layer) = Some 0
   \<and> outcome_alert (dtls_get_more_records ex_env ex_full_layer) = Some SSL_AD_NO_ALERT
   \<and> OSSL_RECORD_RETURN_FATAL ex_env = - 2
   \<and> in_init ex_full_layer
   \<and> map_option pqueue_size (pq_q (unprocessed_rcds ex_full_layer)) = Some 100"
proof -
  obtain rl' where "dtls_get_more_records ex_env ex_full_layer = Some (Returned 0 rl')"
    and "alert rl' = SSL_AD_NO_ALERT"
    using ex_full_run by blast
  then show ?thesis
    by (simp add: outcome_code_def outcome_alert_def ex_env_def ex_full_layer_def ex_layer_def
        pqueue_size_def)
qed


lemma retrieve_empty:
  "pq_q (processed_rcds rl) = Some []
   \<Longrightarrow> dtls_retrieve_rlayer_buffered_record rl ProcessedRcds = Some (0, rl)"
  by (simp add: dtls_retrieve_rlayer_buffered_record_def get_queue_def)

lemma parse_header_frame:
  "is_first_record (parse_header rl) = is_first_record rl"
  "version (parse_header rl) = version rl"
  "max_frag_len (parse_header rl) = max_frag_len rl"
  "alert (parse_header rl) = alert rl"
  "num_recs (parse_header rl) = num_recs rl"
  "rr_type (rrec (parse_header rl)) = uint (packet rl ! 0)"
  by (simp_all add: parse_header_def Let_def)

lemma apply_read_n_frame:
  "is_first_record (apply_read_n rl r) = is_first_record rl"
  "version (apply_read_n rl r) = version rl"
  "max_frag_len (apply_read_n rl r) = max_frag_len rl"
  "num_recs (apply_read_n rl r) = num_recs rl"
  "packet_length (apply_read_n rl r) = rn_packet_length r"
  "alert (apply_read_n rl r) = rn_alert r"
  by (simp_all add: apply_read_n_def)

lemma dump_record_frame:
  "packet_length (dump_record rl) = 0"
  "rr_length (rrec (dump_record rl)) = 0"
  "alert (dump_record rl) = alert rl"
  "num_recs (dump_record rl) = num_recs rl"
  "windows (dump_record rl) = windows rl"
  by (simp_all add: dump_record_def windows_def)

text \<open>
  C8. When a header has just been read (nothing waits in \<^verbatim>\<open>processed_rcds\<close>, the
  transport delivered exactly 13 bytes): for a record that is not the first on the
  layer and not an alert, a 16-bit header version different from the layer's version
  makes the pass drop the record (record length and packet length reset to 0, no
  record counted, alert as the transport left it) and the loop goes on with the next
  datagram; a first record or an alert record is not subject to this test and, when
  its major version byte and its length are acceptable, goes on to the body.
\<close>

theorem version_mismatch_silent_drop:
  assumes "pq_q (processed_rcds rl) = Some []"
    and "rstate rl \<noteq> SSL_ST_READ_BODY \<or> packet_length rl < DTLS1_RT_HEADER_LENGTH"
    and "OSSL_RECORD_RETURN_SUCCESS env
           \<le> rn_ret (read_n env rl DTLS1_RT_HEADER_LENGTH (blen (rbuf rl)) False True)"
    and "rn_packet_length (read_n env rl DTLS1_RT_HEADER_LENGTH (blen (rbuf rl)) False True)
           = DTLS1_RT_HEADER_LENGTH"
    and "rl2 = apply_read_n rl (read_n env rl DTLS1_RT_HEADER_LENGTH (blen (rbuf rl)) False True)"
  shows
    "(\<not> is_first_record rl \<and> uint (packet rl2 ! 0) \<noteq> SSL3_RT_ALERT
       \<and> header_version rl2 \<noteq> version rl
        \<longrightarrow> dtls_get_more_records_again env rl = Again (dump_record (parse_header rl2))
            \<and> dtls_get_more_records_loop env rl
                = dtls_get_more_records_loop env (dump_record (parse_header rl2))
            \<and> packet_length (dump_record (parse_header rl2)) = 0
            \<and> rr_length (rrec (dump_record (parse_header rl2))) = 0
            \<and> alert (dump_record (parse_header rl2)) = alert rl2
            \<and> num_recs (dump_record (parse_header rl2)) = num_recs rl)
     \<and> ((is_first_record rl \<or> uint (packet rl2 ! 0) = SSL3_RT_ALERT)
         \<and> header_major rl2 = (if version rl = DTLS_ANY_VERSION env
                                then DTLS1_VERSION_MAJOR env else drop_bit 8 (version rl))
         \<and> rr_length (rrec (parse_header rl2)) \<le> SSL3_RT_MAX_ENCRYPTED_LENGTH env
         \<and> rr_length (rrec (parse_header rl2))
              \<le> max_frag_len rl + SSL3_RT_MAX_ENCRYPTED_OVERHEAD env
        \<longrightarrow> dtls_get_more_records_again env rl
              = dtls_get_more_records_body env (parse_header rl2))"
proof -
  have drop: "dtls_get_more_records_again env rl = Again (dump_record (parse_header rl2))"
    if "\<not> is_first_record rl" "uint (packet rl2 ! 0) \<noteq> SSL3_RT_ALERT"
      "header_version rl2 \<noteq> version rl"
    using assms that unfolding dtls_get_more_records_again_def Let_def
    by (simp add: retrieve_empty parse_header_frame apply_read_n_frame)
  have keep: "dtls_get_more_records_again env rl
              = dtls_get_more_records_body env (parse_header rl2)"
    if "is_first_record rl \<or> uint (packet rl2 ! 0) = SSL3_RT_ALERT"
      "header_major rl2 = (if version rl = DTLS_ANY_VERSION env
                                then DTLS1_VERSION_MAJOR env else drop_bit 8 (version rl))"
      "rr_length (rrec (parse_header rl2)) \<le> SSL3_RT_MAX_ENCRYPTED_LENGTH env"
      "rr_length (rrec (parse_header rl2))
              \<le> max_frag_len rl + SSL3_RT_MAX_ENCRYPTED_OVERHEAD env"
    using assms that unfolding dtls_get_more_records_again_def Let_def
    by (auto simp add: retrieve_empty parse_header_frame apply_read_n_frame)
  show ?thesis
    using drop keep loop_again [where env = env and rl = rl]
    by (simp add: dump_record_frame parse_header_frame apply_read_n_frame assms(5))
qed

theorem version_mismatch_silent_drop_witness:
  "dtls_get_more_records_again ex_env (ex_layer\<lparr>ext := [(1, 13, ex_header_old_handshake, 13)]\<rparr>)
     = Again (dump_record (parse_header
         (apply_read_n (ex_layer\<lparr>ext := [(1, 13, ex_header_old_handshake, 13)]\<rparr>)
            (read_n ex_env (ex_layer\<lparr>ext := [(1, 13, ex_header_old_handshake, 13)]\<rparr>)
               DTLS1_RT_HEADER_LENGTH 0 False True))))
   \<and> dtls_get_more_records_again ex_env (ex_layer\<lparr>ext := [(1, 13, ex_header_old_alert, 13)]\<rparr>)
     = dtls_get_more_records_body ex_env (parse_header
         (apply_read_n (ex_layer\<lparr>ext := [(1, 13, ex_header_old_alert, 13)]\<rparr>)
            (read_n ex_env (ex_layer\<lparr>ext := [(1, 13, ex_header_old_alert, 13)]\<rparr>)
               DTLS1_RT_HEADER_LENGTH 0 False True)))"
  using version_mismatch_silent_drop
          [of "ex_layer\<lparr>ext := [(1, 13, ex_header_old_handshake, 13)]\<rparr>" ex_env
              "apply_read_n (ex_layer\<lparr>ext := [(1, 13, ex_header_old_handshake, 13)]\<rparr>)
                 (read_n ex_env (ex_layer\<lparr>ext := [(1, 13, ex_header_old_handshake, 13)]\<rparr>)
                    DTLS1_RT_HEADER_LENGTH 0 False True)"]
        version_mismatch_silent_drop
          [of "ex_layer\<lparr>ext := [(1, 13, ex_header_old_alert, 13)]\<rparr>" ex_env
              "apply_read_n (ex_layer\<lparr>ext := [(1, 13, ex_header_old_alert, 13)]\<rparr>)
                 (read_n ex_env (ex_layer\<lparr>ext := [(1, 13, ex_header_old_alert, 13)]\<rparr>)
                    DTLS1_RT_HEADER_LENGTH 0 False True)"]
  by (simp add: ex_defs ex_header_old_handshake_def ex_header_old_alert_def apply_read_n_def
      parse_header_def header_version_def header_major_def n2s_def SSL3_RT_ALERT_def
      DTLS1_RT_HEADER_LENGTH_def Let_def)

text \<open>
  The read function on the instance: an old-version handshake record is dropped (the
  function returns 0 once the transport is empty), an old-version alert record is
  delivered; a next-epoch record is fatal when the allocation fails and is queued
  otherwise.
\<close>

lemma ex_old_version_handshake_dropped:
  "\<exists>rl'. dtls_get_more_records ex_env
           (ex_layer\<lparr>ext := [(1, 13, ex_header_old_handshake, 13)]\<rparr>) = Some (Returned 0 rl')
         \<and> alert rl' = SSL_AD_NO_ALERT \<and> num_recs rl' = 0"
  apply (simp add: dtls_get_more_records_def ex_layer_def)
  apply (subst dtls_get_more_records_loop.simps)
  apply (simp add: read_defs ex_defs ex_header_old_handshake_def window_defs)
  apply (subst dtls_get_more_records_loop.simps)
  apply (simp add: read_defs ex_defs window_defs)
  done

lemma ex_old_version_alert_delivered:
  "\<exists>rl'. dtls_get_more_records ex_env
           (ex_layer\<lparr>ext := [(1, 13, ex_header_old_alert, 13),
                              (1, 2, ex_header_old_alert @ [1, 0], 15)]\<rparr>) = Some (Returned 1 rl')
         \<and> alert rl' = SSL_AD_NO_ALERT \<and> num_recs rl' = 1 \<and> rr_type (rrec rl') = SSL3_RT_ALERT"
  apply (simp add: dtls_get_more_records_def ex_layer_def)
  apply (subst dtls_get_more_records_loop.simps)
  apply (simp add: read_defs ex_defs ex_header_old_alert_def window_defs process_defs)
  done

lemma ex_alloc_failure_run:
  "\<exists>rl'. dtls_get_more_records (ex_env\<lparr>OPENSSL_malloc_ok := (\<lambda>rl. False)\<rparr>)
           (ex_full_layer\<lparr>unprocessed_rcds := \<lparr>pq_epoch = 4, pq_q = Some []\<rparr>\<rparr>)
           = Some (Returned (- 2) rl')
         \<and> alert rl' = SSL_AD_INTERNAL_ERROR"
  apply (simp add: dtls_get_more_records_def ex_full_layer_def ex_layer_def)
  apply (subst dtls_get_more_records_loop.simps)
  apply (simp add: read_defs ex_defs ex_header_def window_defs process_defs)
  done

lemma ex_buffered_run:
  "\<exists>rl'. dtls_get_more_records ex_env
           (ex_full_layer\<lparr>unprocessed_rcds := \<lparr>pq_epoch = 4, pq_q = Some []\<rparr>\<rparr>)
           = Some (Returned 0 rl')
         \<and> alert rl' = SSL_AD_NO_ALERT
         \<and> map_option (map fst) (pq_q (unprocessed_rcds rl')) = Some [SeqNum 0 0 0 0 0 0 0 200]"
  apply (simp add: dtls_get_more_records_def ex_full_layer_def ex_layer_def)
  apply (subst dtls_get_more_records_loop.simps)
  apply (simp add: read_defs ex_defs ex_header_def window_defs process_defs)
  apply (subst dtls_get_more_records_loop.simps)
  apply (simp add: read_defs ex_defs ex_header_def window_defs process_defs)
  done

subsection \<open>Teardown\<close>

lemma pqueue_insert_set:
  "pqueue_insert q item = Some q' \<Longrightarrow> set q' = insert item (set q)"
  by (induction q arbitrary: q') (auto split: if_splits)

lemma pqueue_insert_sorted:
  "pqueue_insert q item = Some q' \<Longrightarrow> sorted_wrt (\<lambda>a b. priority a < priority b) q
   \<Longrightarrow> sorted_wrt (\<lambda>a b. priority a < priority b) q'"
proof (induction q arbitrary: q')
  case Nil
  then show ?case by auto
next
  case (Cons x xs)
  show ?case
  proof (cases "n2l8 (fst item) < n2l8 (fst x)")
    case True
    then have lt: "priority item < priority x"
      by (simp add: priority_def word_less_def)
    from True Cons.prems(1) have q': "q' = item # x # xs"
      by (auto split: if_splits)
    have "\<forall>y \<in> set xs. priority item < priority y"
      using Cons.prems(2) lt by fastforce
    then show ?thesis using q' lt Cons.prems(2) by simp
  next
    case False
    with Cons.prems obtain q'' where q'': "pqueue_insert xs item = Some q''" "q' = x # q''"
      and ne: "n2l8 (fst item) \<noteq> n2l8 (fst x)"
      by (auto split: if_splits)
    have lt: "priority x < priority item"
      using False ne by (simp add: priority_def word_less_def word_uint_eq_iff)
    have "sorted_wrt (\<lambda>a b. priority a < priority b) q''"
      using Cons.IH [OF q''(1)] Cons.prems(2) by simp
    moreover have "\<forall>y \<in> set q''. priority x < priority y"
      using pqueue_insert_set [OF q''(1)] Cons.prems(2) lt by auto
    ultimately show ?thesis using q''(2) by simp
  qed
qed

lemma pqueue_reachable_sorted:
  "pqueue_reachable q \<Longrightarrow> sorted_wrt (\<lambda>a b. priority a < priority b) q"
proof (induction rule: pqueue_reachable.induct)
  case new
  then show ?case by (simp add: pqueue_new_def)
next
  case (insert q item q')
  then show ?case using pqueue_insert_sorted by blast
next
  case (pop q x q')
  show ?case
  proof (cases q)
    case Nil
    with pop.hyps(2) show ?thesis by simp
  next
    case (Cons y ys)
    with pop.hyps(2) pop.IH show ?thesis by simp
  qed
qed

lemma dtls_free_unprocessed_sink:
  "snd (dtls_free_unprocessed env q ret sink) = sink @ map (\<lambda>item. rdata_packet_bytes (snd item)) q"
  by (induction q arbitrary: ret sink) (simp_all add: Let_def)

declare dtls_free_unprocessed.simps [simp del]

lemma dtls_free_sink:
  assumes "pq_q (unprocessed_rcds rl) = Some q"
  shows "next_bio (snd (dtls_free env rl)) =
           next_bio rl @ (if left (rbuf rl) > 0 then [rbuf_left_bytes (rbuf rl)] else [])
             @ map (\<lambda>item. rdata_packet_bytes (snd item)) q"
  using assms
  by (simp add: dtls_free_def Let_def case_prod_beta dtls_free_unprocessed_sink)

text \<open>
  C7. On teardown of a layer whose \<open>unprocessed\<close> queue holds \<open>k\<close> records (a queue
  obtained from \<^verbatim>\<open>pqueue_new\<close> by insertions and pops), \<^verbatim>\<open>dtls_free\<close> hands to the
  successor sink first the unread bytes of the read buffer (if there are any) and then
  exactly the \<open>k\<close> raw packets of the queue, in the order of the queue, which is the
  order of non-decreasing priority.
\<close>

theorem dtls_free_flushes_queue_in_priority_order:
  assumes "pq_q (unprocessed_rcds rl) = Some q" and "pqueue_reachable q"
  shows "next_bio (snd (dtls_free env rl)) =
           next_bio rl @ (if left (rbuf rl) > 0 then [rbuf_left_bytes (rbuf rl)] else [])
             @ map (\<lambda>item. rdata_packet_bytes (snd item)) q
         \<and> length (map (\<lambda>item. rdata_packet_bytes (snd item)) q) = pqueue_size q
         \<and> sorted (map priority q)"
proof -
  have "sorted_wrt (\<lambda>a b. priority a < priority b) q"
    using assms(2) by (rule pqueue_reachable_sorted)
  then have "sorted_wrt (\<lambda>a b. priority a \<le> priority b) q"
    by (rule sorted_wrt_mono_rel [rotated]) simp
  then have "sorted (map priority q)"
    by (simp add: sorted_map)
  then show ?thesis
    using dtls_free_sink [OF assms(1)] by (simp add: pqueue_size_def)
qed

lemma ex_queue_reachable: "pqueue_reachable [ex_item 5, ex_item 9]"
proof -
  have a: "pqueue_reachable [ex_item 9]"
    by (rule pqueue_reachable.insert [OF pqueue_reachable.new, of "ex_item 9"])
       (simp add: pqueue_new_def)
  show ?thesis
    by (rule pqueue_reachable.insert [OF a, of "ex_item 5"]) (simp add: ex_item_def)
qed

theorem dtls_free_flushes_queue_in_priority_order_witness:
  "next_bio (snd (dtls_free ex_env
       (ex_layer\<lparr>rbuf := \<lparr>buf = Some [1, 2, 3, 4], blen = 4, offset = 1, left = 2\<rparr>,
                  unprocessed_rcds := \<lparr>pq_epoch = 4, pq_q = Some [ex_item 5, ex_item 9]\<rparr>\<rparr>)))
     = [[2, 3],
        [22, 254, 253, 0, 4, 0, 0, 0, 0, 0, 5, 0, 1, 7],
        [22, 254, 253, 0, 4, 0, 0, 0, 0, 0, 9, 0, 1, 7]]
   \<and> map priority [ex_item 5, ex_item 9] = [5, 9]"
  using dtls_free_flushes_queue_in_priority_order
          [of "ex_layer\<lparr>rbuf := \<lparr>buf = Some [1, 2, 3, 4], blen = 4, offset = 1, left = 2\<rparr>,
                  unprocessed_rcds := \<lparr>pq_epoch = 4, pq_q = Some [ex_item 5, ex_item 9]\<rparr>\<rparr>"
              "[ex_item 5, ex_item 9]" ex_env]
        ex_queue_reachable
  by (simp add: ex_layer_def rbuf_left_bytes_def rdata_packet_bytes_def ex_item_def priority_def)

subsection \<open>Write retries\<close>

text \<open>
  C9 (as amended). \<^verbatim>\<open>ssl3_write_pending\<close> rejects a retry with the fatal error
  \<open>bad_write_retry\<close> when its length is smaller than the total of the pending write, or
  its type differs, or its buffer differs while
  \<^verbatim>\<open>SSL_MODE_ACCEPT_MOVING_WRITE_BUFFER\<close> is off; every other retry, in particular one
  with the same buffer, type and length, proceeds to the write loop, and so does the
  first attempt of \<^verbatim>\<open>dtls_write_records\<close>, which memorises its own arguments.
\<close>

theorem ssl3_write_pending_retry_guard:
  "(wpend_tot s > len
      \<or> (\<not> mode_accept_moving_write_buffer s \<and> wpend_buf s \<noteq> buf_addr)
      \<or> wpend_type s \<noteq> type
     \<longrightarrow> ssl3_write_pending benv s wb type buf_addr len
           = Some \<lparr>wr_ret = - 1,
                    wr_conn = SSLfatal s SSL_AD_INTERNAL_ERROR SSL_R_BAD_WRITE_RETRY,
                    wr_wbuf = wb, wr_written = None\<rparr>)
   \<and> (wpend_tot s \<le> len
       \<and> (mode_accept_moving_write_buffer s \<or> wpend_buf s = buf_addr)
       \<and> wpend_type s = type
     \<longrightarrow> ssl3_write_pending benv s wb type buf_addr len
           = ssl3_write_pending_loop benv type s wb 0)
   \<and> dtls_write_records_flush benv s wb type buf_addr len
       = ssl3_write_pending_loop benv type
           (s\<lparr>wpend_tot := len, wpend_buf := buf_addr, wpend_type := type, wpend_ret := len\<rparr>)
           wb 0"
  by (auto simp add: ssl3_write_pending_def dtls_write_records_flush_def Let_def)

lemma ex_write_all:
  "ssl3_write_pending_loop ex_benv 23 ex_conn ex_wbuf 0
     = Some \<lparr>wr_ret = 1, wr_conn = ex_conn,
             wr_wbuf = \<lparr>buf = Some [1, 2, 3], blen = 3, offset = 3, left = 0\<rparr>,
             wr_written = Some 5\<rparr>"
  by (subst ssl3_write_pending_loop.simps)
     (simp add: ex_benv_def ex_conn_def ex_wbuf_def SSL3_RT_APPLICATION_DATA_def Let_def)

theorem ssl3_write_pending_retry_guard_witness:
  "ssl3_write_pending ex_benv ex_conn ex_wbuf 23 1000 3
     = Some \<lparr>wr_ret = - 1,
              wr_conn = SSLfatal ex_conn SSL_AD_INTERNAL_ERROR SSL_R_BAD_WRITE_RETRY,
              wr_wbuf = ex_wbuf, wr_written = None\<rparr>
   \<and> ssl3_write_pending ex_benv ex_conn ex_wbuf 23 1000 5
     = Some \<lparr>wr_ret = 1, wr_conn = ex_conn,
             wr_wbuf = \<lparr>buf = Some [1, 2, 3], blen = 3, offset = 3, left = 0\<rparr>,
             wr_written = Some 5\<rparr>"
  using ssl3_write_pending_retry_guard [where s = ex_conn and len = 3 and buf_addr = 1000
           and type = 23 and benv = ex_benv and wb = ex_wbuf]
        ssl3_write_pending_retry_guard [where s = ex_conn and len = 5 and buf_addr = 1000
           and type = 23 and benv = ex_benv and wb = ex_wbuf]
        ex_write_all
  by (simp add: ex_conn_def)

text \<open>
  The claim as first stated rejects every retry whose triple differs from the pending
  one. On the instance (5 bytes pending) a retry with the same buffer and type and the
  length 10 is written out and returns 1, with no fatal error.
\<close>

theorem longer_retry_is_accepted_counterexample:
  "(wpend_buf ex_conn, wpend_type ex_conn, wpend_tot ex_conn) \<noteq> (1000, 23, 10)
   \<and> ssl3_write_pending ex_benv ex_conn ex_wbuf 23 1000 10
     = Some \<lparr>wr_ret = 1, wr_conn = ex_conn,
             wr_wbuf = \<lparr>buf = Some [1, 2, 3], blen = 3, offset = 3, left = 0\<rparr>,
             wr_written = Some 5\<rparr>
   \<and> statem_fatal ex_conn = None"
  using ex_write_all by (simp add: ssl3_write_pending_def ex_conn_def)

subsection \<open>The deferred queue across the read loop\<close>

text \<open>
  The hypothesis of the teardown theorem holds of every layer: a layer starts with the
  queues of \<^verbatim>\<open>pqueue_new\<close>, and whatever \<^verbatim>\<open>dtls_get_more_records\<close> returns, the
  \<open>unprocessed\<close> queue is still obtained by insertions and pops and holds at most 100
  items.
\<close>

lemma bitmap_update_queues [simp]:
  "unprocessed_rcds (dtls_record_bitmap_update rl bp) = unprocessed_rcds rl"
  by (cases bp) (simp_all add: dtls_record_bitmap_update_def set_bm_def Let_def)

lemma replay_check_queues [simp]:
  "unprocessed_rcds (snd (dtls_record_replay_check rl bp)) = unprocessed_rcds rl"
  by (simp add: dtls_record_replay_check_def Let_def)

lemma simple_queues [simp]:
  "unprocessed_rcds (RLAYERfatal rl al r) = unprocessed_rcds rl"
  "unprocessed_rcds (apply_cipher rl cr) = unprocessed_rcds rl"
  "unprocessed_rcds (apply_read_n rl rn) = unprocessed_rcds rl"
  "unprocessed_rcds (parse_header rl) = unprocessed_rcds rl"
  "unprocessed_rcds (dump_record rl) = unprocessed_rcds rl"
  by (simp_all add: RLAYERfatal_def apply_cipher_def apply_read_n_def parse_header_def
      dump_record_def Let_def)

lemma uncompress_queues:
  "(case dtls_process_record_uncompress env rl of
      Inl rlf \<Rightarrow> unprocessed_rcds rlf = unprocessed_rcds rl
    | Inr rl2 \<Rightarrow> unprocessed_rcds rl2 = unprocessed_rcds rl)"
  unfolding dtls_process_record_uncompress_def Let_def
  by (simp split: prod.split)

lemma commit_queues [simp]:
  "unprocessed_rcds (snd (dtls_process_record_commit rl bp)) = unprocessed_rcds rl"
  by (simp add: dtls_process_record_commit_def)

lemma decrypt_queues [simp]:
  "unprocessed_rcds (snd (dtls_process_record_decrypt env rl m bp)) = unprocessed_rcds rl"
proof (cases "dtls_process_record_uncompress env (apply_cipher rl (cipher env rl m))")
  case (Inl rlf)
  then show ?thesis
    using uncompress_queues [where env = env and rl = "apply_cipher rl (cipher env rl m)"]
    unfolding dtls_process_record_decrypt_def Let_def by simp
next
  case (Inr rl2)
  then show ?thesis
    using uncompress_queues [where env = env and rl = "apply_cipher rl (cipher env rl m)"]
    unfolding dtls_process_record_decrypt_def Let_def by simp
qed

lemma process_queues [simp]:
  "unprocessed_rcds (snd (dtls_process_record env rl bp)) = unprocessed_rcds rl"
  unfolding dtls_process_record_def Let_def
  by (simp split: option.split)

lemma retrieve_queues:
  "dtls_retrieve_rlayer_buffered_record rl ProcessedRcds = Some (got, rl')
   \<Longrightarrow> unprocessed_rcds rl' = unprocessed_rcds rl"
  by (auto simp add: dtls_retrieve_rlayer_buffered_record_def dtls_copy_rlayer_record_def
      get_queue_def set_queue_q_def Let_def split: option.splits prod.splits)

lemma buffer_record_inv:
  assumes "queue_inv (unprocessed_rcds rl)"
    and "dtls_rlayer_buffer_record env rl UnprocessedRcds pr = Some (r, rl')"
  shows "queue_inv (unprocessed_rcds rl')"
proof -
  obtain q where q: "pq_q (unprocessed_rcds rl) = Some q"
    using assms(2) by (auto simp add: dtls_rlayer_buffer_record_def get_queue_def
        split: option.splits)
  have inv: "pqueue_reachable q" "pqueue_size q \<le> 100"
    using assms(1) q by (simp_all add: queue_inv_def)
  have ins: "pqueue_reachable q' \<and> pqueue_size q' \<le> 100"
    if "pqueue_insert q item = Some q'" "pqueue_size q < 100" for item q'
  proof -
    have "set q' = insert item (set q)" using that(1) by (rule pqueue_insert_set)
    have "length q' = Suc (length q)"
      using that(1) by (induction q arbitrary: q') (auto split: if_splits)
    then show ?thesis
      using that inv(1) pqueue_reachable.insert by (auto simp add: pqueue_size_def)
  qed
  show ?thesis
    using assms(2) q inv ins
    unfolding dtls_rlayer_buffer_record_def get_queue_def set_queue_q_def Let_def
    by (auto simp add: queue_inv_def RLAYERfatal_def split: if_splits option.splits)
qed


lemma step_queue_inv_simps [simp]:
  "step_queue_inv (Return r rl) = queue_inv (unprocessed_rcds rl)"
  "step_queue_inv (Again rl) = queue_inv (unprocessed_rcds rl)"
  "step_queue_inv Fault"
  by (simp_all add: step_queue_inv_def)

lemma deliver_inv:
  assumes "queue_inv (unprocessed_rcds rl)"
  shows "step_queue_inv (dtls_get_more_records_deliver env rl bp n)"
proof (cases "rr_length (rrec rl) = 0")
  case True
  then show ?thesis using assms by (simp add: dtls_get_more_records_deliver_def)
next
  case False
  show ?thesis
  proof (cases n)
    case True
    show ?thesis
    proof (cases "dtls_rlayer_buffer_record env rl UnprocessedRcds (rr_seq_num (rrec rl))")
      case None
      then show ?thesis
        using assms False True by (simp add: dtls_get_more_records_deliver_def)
    next
      case (Some p)
      obtain r rl' where p: "p = (r, rl')" by force
      have "queue_inv (unprocessed_rcds rl')"
        using buffer_record_inv [OF assms] Some p by simp
      then show ?thesis
        using assms False True Some p by (simp add: dtls_get_more_records_deliver_def)
    qed
  next
    case n: False
    obtain r rl' where p: "dtls_process_record env rl bp = (r, rl')" by force
    have "unprocessed_rcds rl' = unprocessed_rcds rl"
      using process_queues [where env = env and rl = rl and bp = bp] p by simp
    then show ?thesis
      using assms False n p by (simp add: dtls_get_more_records_deliver_def)
  qed
qed

lemma body_inv:
  assumes "queue_inv (unprocessed_rcds rl)"
  shows "step_queue_inv (dtls_get_more_records_body env rl)"
proof -
  define more where "more = rr_length (rrec rl)"
  define need where
    "need = (rr_length (rrec rl) > size_t_sub (packet_length rl) DTLS1_RT_HEADER_LENGTH)"
  define r where "r = read_n env rl more more True True"
  define rl1 where "rl1 = (if need then apply_read_n rl r else rl)"
  define rl2 where "rl2 = rl1\<lparr>rstate := SSL_ST_READ_HEADER\<rparr>"
  define short where
    "short = (need \<and> (rn_ret r < OSSL_RECORD_RETURN_SUCCESS env \<or> rn_readbytes r \<noteq> more))"
  have q1: "queue_inv (unprocessed_rcds rl1)" using assms by (simp add: rl1_def)
  have q2: "queue_inv (unprocessed_rcds rl2)" using q1 by (simp add: rl2_def)
  have eq: "dtls_get_more_records_body env rl =
     (if short then
           (if alert rl1 \<noteq> SSL_AD_NO_ALERT then Return (OSSL_RECORD_RETURN_FATAL env) rl1
            else Again (dump_record rl1))
      else case dtls_get_bitmap rl2 (rrec rl2) of
                (None, is_next_epoch) \<Rightarrow> Again (dump_record rl2)
              | (Some bp, is_next_epoch) \<Rightarrow>
                  if \<not> bio_is_sctp rl2 then
                    (case dtls_record_replay_check rl2 bp of
                       (ok, rl3) \<Rightarrow>
                         if ok = 0 then Again (dump_record rl3)
                         else dtls_get_more_records_deliver env rl3 bp is_next_epoch)
                  else dtls_get_more_records_deliver env rl2 bp is_next_epoch)"
    unfolding dtls_get_more_records_body_def Let_def more_def need_def r_def rl1_def rl2_def
      short_def
    by (rule refl)
  show ?thesis
  proof (cases short)
    case True
    then show ?thesis using q1 by (simp add: eq)
  next
    case False
    obtain b n where g: "dtls_get_bitmap rl2 (rrec rl2) = (b, n)" by force
    show ?thesis
    proof (cases b)
      case None
      then show ?thesis using False g q2 by (simp add: eq)
    next
      case (Some bp)
      obtain ok rl3 where c: "dtls_record_replay_check rl2 bp = (ok, rl3)" by force
      have "unprocessed_rcds rl3 = unprocessed_rcds rl2"
        using replay_check_queues [where rl = rl2 and bp = bp] c by simp
      then have q3: "queue_inv (unprocessed_rcds rl3)" using q2 by simp
      show ?thesis
        using False g Some c q2 q3 deliver_inv [OF q2] deliver_inv [OF q3]
        by (simp add: eq)
    qed
  qed
qed

lemma again_inv:
  assumes "queue_inv (unprocessed_rcds rl)"
  shows "step_queue_inv (dtls_get_more_records_again env rl)"
proof (cases "dtls_retrieve_rlayer_buffered_record rl ProcessedRcds")
  case None
  then show ?thesis by (simp add: dtls_get_more_records_again_def)
next
  case (Some p)
  obtain got rl1 where p: "p = (got, rl1)" by force
  have q1: "queue_inv (unprocessed_rcds rl1)"
    using retrieve_queues Some p assms by metis
  have q3: "queue_inv (unprocessed_rcds (parse_header (apply_read_n rl1 rn)))" for rn
    using q1 by simp
  show ?thesis
    unfolding dtls_get_more_records_again_def Let_def Some p
    using q1 body_inv [OF q1] body_inv [OF q3]
    by simp
qed

lemma loop_inv_aux:
  assumes "dtls_get_more_records_loop env rl = Some y"
  shows "queue_inv (unprocessed_rcds rl) \<longrightarrow>
           (case y of Returned r rl' \<Rightarrow> queue_inv (unprocessed_rcds rl') | Faulted \<Rightarrow> True)"
  using assms
proof (induction rule: dtls_get_more_records_loop.raw_induct [rotated, consumes 1, case_names step])
  case (step f env rl y)
  show ?case
  proof
    assume inv: "queue_inv (unprocessed_rcds rl)"
    have si: "step_queue_inv (dtls_get_more_records_again env rl)"
      using inv by (rule again_inv)
    show "case y of Returned r rl' \<Rightarrow> queue_inv (unprocessed_rcds rl') | Faulted \<Rightarrow> True"
    proof (cases "dtls_get_more_records_again env rl")
      case (Return r rl')
      then show ?thesis using step.hyps si by auto
    next
      case (Again rl')
      then have "f env rl' = Some y" using step.hyps by simp
      then show ?thesis using step.IH Again si by auto
    next
      case Fault
      then show ?thesis using step.hyps by auto
    qed
  qed
qed

lemma get_more_records_queue_inv:
  assumes "queue_inv (unprocessed_rcds rl)"
    and "dtls_get_more_records env rl = Some (Returned r rl')"
  shows "queue_inv (unprocessed_rcds rl')"
proof -
  have a: "queue_inv (unprocessed_rcds (rl\<lparr>num_recs := 0, curr_rec := 0, num_released := 0\<rparr>))"
    using assms(1) by simp
  have b: "queue_inv (unprocessed_rcds (rl\<lparr>num_recs := 0, curr_rec := 0, num_released := 0,
      rbuf := x, alert := y, fatal_reason := z\<rparr>))" for x y z
    using assms(1) by simp
  show ?thesis
    using assms(2) loop_inv_aux a b
    unfolding dtls_get_more_records_def Let_def
    by (fastforce split: if_splits)
qed

lemma dtls_new_record_layer_queue_inv:
  assumes "dtls_new_record_layer env base (Some pqueue_new) (Some pqueue_new) scs vers e
             = (r, Some rl)"
  shows "queue_inv (unprocessed_rcds rl)"
  using assms pqueue_reachable.new
  by (auto simp add: dtls_new_record_layer_def Let_def queue_inv_def pqueue_size_def
      pqueue_new_def split: prod.splits if_splits)

end
